theory Spec2Isabelle
  imports Main "HOL-Library.Word" "HOL-Library.Signed_Division"
begin

section \<open>Go library functions used by the controller\<close>

text \<open>
  The manager is built with \<^verbatim>\<open>GOARCH=amd64\<close> (Dockerfile), so Go's \<^verbatim>\<open>int\<close> is a 64-bit
  two's complement integer and \<^verbatim>\<open>int32\<close> a 32-bit one. A Go \<^verbatim>\<open>string\<close> is a sequence of
  bytes, as a HOL \<open>string\<close> is.
\<close>

type_synonym go_int = "64 word"
type_synonym int32 = "32 word"

text \<open>\<^verbatim>\<open>strings.HasPrefix\<close>.\<close>

definition HasPrefix :: "string \<Rightarrow> string \<Rightarrow> bool" where
  "HasPrefix s p \<longleftrightarrow> take (length p) s = p"

text \<open>\<^verbatim>\<open>strings.Index\<close>: the position of the first occurrence of \<open>sep\<close>, \<open>None\<close> for Go's -1.\<close>

fun Index :: "string \<Rightarrow> string \<Rightarrow> nat option" where
  "Index [] sep = (if sep = [] then Some 0 else None)"
| "Index (c # cs) sep =
     (if HasPrefix (c # cs) sep then Some 0 else map_option Suc (Index cs sep))"

text \<open>\<^verbatim>\<open>strings.Contains\<close>.\<close>

definition Contains :: "string \<Rightarrow> string \<Rightarrow> bool" where
  "Contains s sub \<longleftrightarrow> Index s sub \<noteq> None"

text \<open>
  \<^verbatim>\<open>strings.SplitN(s, sep, n)\<close> for \<open>n \<ge> 0\<close> and a non-empty \<open>sep\<close>: at most \<open>n\<close> pieces,
  the last one being the unsplit rest.
\<close>

fun SplitN :: "string \<Rightarrow> string \<Rightarrow> nat \<Rightarrow> string list" where
  "SplitN s sep 0 = []"
| "SplitN s sep (Suc 0) = [s]"
| "SplitN s sep (Suc (Suc n)) =
     (case Index s sep of
        None \<Rightarrow> [s]
      | Some i \<Rightarrow> take i s # SplitN (drop (i + length sep) s) sep (Suc n))"

text \<open>
  Cutting a string at every byte that satisfies \<open>f\<close>; there is always at least one piece.
\<close>

fun splitWhen :: "(char \<Rightarrow> bool) \<Rightarrow> string \<Rightarrow> string list" where
  "splitWhen f [] = [[]]"
| "splitWhen f (x # xs) =
     (if f x then [] # splitWhen f xs
      else (case splitWhen f xs of p # ps \<Rightarrow> (x # p) # ps | [] \<Rightarrow> [[x]]))"

text \<open>
  \<^verbatim>\<open>strings.Split(s, sep)\<close> where \<open>sep\<close> is the one-byte string made of \<open>c\<close> (the code only
  splits on \<^verbatim>\<open>","\<close> and \<^verbatim>\<open>":"\<close>): \<open>Split [] c\<close> is the one-element list \<open>[[]]\<close>, as in Go.
\<close>

definition Split :: "string \<Rightarrow> char \<Rightarrow> string list" where
  "Split s c = splitWhen (\<lambda>x. x = c) s"

text \<open>
  \<^verbatim>\<open>strings.FieldsFunc(s, f)\<close>: the maximal runs of bytes not satisfying \<open>f\<close>; empty fields
  are never returned. The controller's predicate only accepts the ASCII bytes \<^verbatim>\<open>','\<close> and
  \<^verbatim>\<open>' '\<close>, which never occur inside a multi-byte UTF-8 sequence, so cutting bytes is cutting
  runes.
\<close>

definition FieldsFunc :: "string \<Rightarrow> (char \<Rightarrow> bool) \<Rightarrow> string list" where
  "FieldsFunc s f = filter (\<lambda>w. w \<noteq> []) (splitWhen f s)"

subsection \<open>strconv\<close>

definition is_digit :: "char \<Rightarrow> bool" where
  "is_digit c \<longleftrightarrow> 48 \<le> (of_char c :: nat) \<and> (of_char c :: nat) \<le> 57"

definition digit_val :: "char \<Rightarrow> nat" where
  "digit_val c = of_char c - 48"

definition digit_char :: "nat \<Rightarrow> char" where
  "digit_char d = ''0123456789'' ! d"

function digits10 :: "nat \<Rightarrow> string" where
  "digits10 n =
     (if n < 10 then [digit_char n] else digits10 (n div 10) @ [digit_char (n mod 10)])"
  by pat_completeness auto
termination
  by (relation "measure id") auto

declare digits10.simps [simp del]

text \<open>\<^verbatim>\<open>strconv.Itoa\<close>: the decimal text of a signed 64-bit integer.\<close>

definition Itoa :: "go_int \<Rightarrow> string" where
  "Itoa i =
     (if sint i < 0 then CHR ''-'' # digits10 (nat (- sint i)) else digits10 (nat (sint i)))"

datatype num_error = ErrSyntax | ErrRange

text \<open>The digit loop of \<^verbatim>\<open>strconv.ParseUint\<close> in base 10: \<open>None\<close> at the first non-digit.\<close>

fun parse_digits :: "nat \<Rightarrow> string \<Rightarrow> nat option" where
  "parse_digits n [] = Some n"
| "parse_digits n (c # cs) =
     (if is_digit c then parse_digits (n * 10 + digit_val c) cs else None)"

text \<open>
  \<^verbatim>\<open>strconv.Atoi\<close> returns a value and an error. On a syntax error the value is 0; on a
  range error it is the nearest representable integer (\<^verbatim>\<open>ParseInt\<close> clamps), and the
  error is \<^verbatim>\<open>ErrRange\<close>.
\<close>

definition Atoi :: "string \<Rightarrow> go_int \<times> num_error option" where
  "Atoi s =
     (if s = [] then (0, Some ErrSyntax)
      else
        let neg = (hd s = CHR ''-'');
            body = (if hd s = CHR ''+'' \<or> hd s = CHR ''-'' then tl s else s)
        in if body = [] then (0, Some ErrSyntax)
           else (case parse_digits 0 body of
                   None \<Rightarrow> (0, Some ErrSyntax)
                 | Some v \<Rightarrow>
                     if \<not> neg \<and> 2 ^ 63 \<le> v then (word_of_int (2 ^ 63 - 1), Some ErrRange)
                     else if neg \<and> 2 ^ 63 < v then (word_of_int (- (2 ^ 63)), Some ErrRange)
                     else (if neg then - of_nat v else of_nat v, None)))"

section \<open>The Triton client: port mappings and their metadata encoding\<close>

record PortMapping =
  Type :: string
  ListenPort :: go_int
  BackendName :: string
  BackendPort :: go_int

text \<open>
  The portmap-building loop of \<^verbatim>\<open>CreateLoadBalancer\<close> and \<^verbatim>\<open>UpdateLoadBalancer\<close> (the two
  functions contain the same loop). The loop state is the index \<open>i\<close> and the string
  \<open>portmap\<close> built so far.
\<close>

fun buildPortmap :: "nat \<Rightarrow> string \<Rightarrow> PortMapping list \<Rightarrow> string" where
  "buildPortmap i portmap [] = portmap"
| "buildPortmap i portmap (mapping # rest) =
     (let portmap1 = (if 0 < i then portmap @ '','' else portmap);
          listenPortStr = Itoa (ListenPort mapping);
          portmap2 =
            (if 0 < sint (BackendPort mapping)
             then portmap1 @ Type mapping @ ''://'' @ listenPortStr @ '':'' @
                  BackendName mapping @ '':'' @ Itoa (BackendPort mapping)
             else portmap1 @ Type mapping @ ''://'' @ listenPortStr @ '':'' @
                  BackendName mapping)
      in buildPortmap (Suc i) portmap2 rest)"

definition encodePortmap :: "PortMapping list \<Rightarrow> string" where
  "encodePortmap mappings = buildPortmap 0 [] mappings"

text \<open>
  The body of the loop of \<^verbatim>\<open>parsePortMap\<close> for one entry: \<open>None\<close> where the code says
  \<^verbatim>\<open>continue\<close>, otherwise the mapping that is appended.
\<close>

definition parseEntry :: "string \<Rightarrow> PortMapping option" where
  "parseEntry entry =
     (let parts = SplitN entry ''://'' 2
      in if length parts \<noteq> 2 then None
         else
           let portType = parts ! 0;
               portParts = Split (parts ! 1) CHR '':''
           in if length portParts < 2 then None
              else (case Atoi (portParts ! 0) of
                      (listenPort, Some err) \<Rightarrow> None
                    | (listenPort, None) \<Rightarrow>
                        let backendName = portParts ! 1;
                            backendPort =
                              (if 2 < length portParts then fst (Atoi (portParts ! 2)) else 0)
                        in Some \<lparr>Type = portType, ListenPort = listenPort,
                                 BackendName = backendName, BackendPort = backendPort\<rparr>))"

fun parseLoop :: "PortMapping list \<Rightarrow> string list \<Rightarrow> PortMapping list" where
  "parseLoop mappings [] = mappings"
| "parseLoop mappings (entry # rest) =
     (case parseEntry entry of
        None \<Rightarrow> parseLoop mappings rest
      | Some mapping \<Rightarrow> parseLoop (mappings @ [mapping]) rest)"

definition parsePortMap :: "string \<Rightarrow> PortMapping list" where
  "parsePortMap portmapStr = parseLoop [] (Split portmapStr CHR '','')"

section \<open>The Triton client: the CloudAPI and the calls made to it\<close>

text \<open>
  A Go \<^verbatim>\<open>error\<close> is what \<^verbatim>\<open>fmt.Errorf\<close> builds or what a remote call hands back: a message.
  The Kubernetes client can also hand back an error that \<^verbatim>\<open>errors.IsNotFound\<close> recognises.
\<close>

datatype error = Error string | NotFoundError string

fun message :: "error \<Rightarrow> string" where
  "message (Error m) = m"
| "message (NotFoundError m) = m"

fun IsNotFound :: "error \<Rightarrow> bool" where
  "IsNotFound (Error m) = False"
| "IsNotFound (NotFoundError m) = True"

text \<open>
  Values of type \<^verbatim>\<open>interface{}\<close> in metadata and tags: the client writes strings and reads
  back only what passes the type assertion \<^verbatim>\<open>.(string)\<close>.
\<close>

datatype jvalue = JString string | JOther

type_synonym metadata = "string \<rightharpoonup> jvalue"

text \<open>\<^verbatim>\<open>compute.Instance\<close>, with the fields the client reads.\<close>

record Instance =
  inst_ID :: string
  inst_Name :: string
  inst_State :: string
  inst_IPs :: "string list"
  inst_Metadata :: metadata
  inst_Tags :: metadata

record ListInstancesInput =
  li_Name :: string
  li_Tags :: metadata

record CreateInstanceInput =
  ci_Name :: string
  ci_Package :: string
  ci_Image :: string
  ci_Metadata :: metadata
  ci_Tags :: metadata

record LoadBalancerParams =
  Name :: string
  PortMappings :: "PortMapping list"
  MaxBackends :: go_int
  CertificateName :: string
  MetricsACL :: "string list"

record TritonInstance =
  ti_ID :: string
  ti_Name :: string
  ti_IPs :: "string list"
  ti_Tags :: metadata

text \<open>The Kubernetes objects the reconciler reads: a Service and its ports.\<close>

record ServicePort =
  port_Name :: string
  port_Port :: int32
  port_TargetPortIntVal :: int32

record LoadBalancerIngress =
  IP :: string
  Hostname :: string

datatype Time = ZeroTime | TimeAt nat

record Service =
  svc_Name :: string
  svc_Namespace :: string
  svc_Annotations :: "string \<rightharpoonup> string"
  svc_DeletionTimestamp :: "Time option"
  svc_Type :: string
  svc_Ports :: "ServicePort list"
  svc_Ingress :: "LoadBalancerIngress list"

text \<open>
  Every interaction with the outside is recorded, in order, in a log of calls: the requests
  to the CloudAPI, the sleeps of the polling loops, and the reads and status writes on the
  Kubernetes API. (Log lines and \<^verbatim>\<open>fmt.Printf\<close> progress messages are not modelled.)
\<close>

datatype call =
    ListCall ListInstancesInput
  | CreateCall CreateInstanceInput
  | GetCall string
  | DeleteCall string
  | UpdateMetadataCall string metadata
  | SleepCall nat
  | KubeGetCall string string
  | StatusUpdateCall Service

text \<open>
  The outside world answers each call; what it answers may depend on everything that
  happened before, so every answer is a function of the log so far. \<open>Getenv\<close> is the
  process environment.
\<close>

record env =
  ListInstances :: "call list \<Rightarrow> ListInstancesInput \<Rightarrow> error + Instance list"
  CreateInstance :: "call list \<Rightarrow> CreateInstanceInput \<Rightarrow> error + Instance"
  GetInstance :: "call list \<Rightarrow> string \<Rightarrow> error + Instance"
  DeleteInstance :: "call list \<Rightarrow> string \<Rightarrow> error option"
  UpdateMetadata :: "call list \<Rightarrow> string \<Rightarrow> metadata \<Rightarrow> error option"
  KubeGet :: "call list \<Rightarrow> string \<Rightarrow> string \<Rightarrow> error + Service"
  StatusUpdate :: "call list \<Rightarrow> Service \<Rightarrow> error option"
  Getenv :: "string \<Rightarrow> string"

text \<open>
  A \<^verbatim>\<open>context.Context\<close>: whether \<^verbatim>\<open>ctx.Done()\<close> is closed at a given point of the
  execution. \<^verbatim>\<open>context.Background()\<close> is never done.
\<close>

type_synonym ctx = "call list \<Rightarrow> bool"

definition Background :: ctx where
  "Background = (\<lambda>L. False)"

text \<open>The listing by name and ownership tags that every client operation starts with.\<close>

definition listInput :: "string \<Rightarrow> ListInstancesInput" where
  "listInput name =
     \<lparr>li_Name = name,
      li_Tags = [''loadbalancer'' \<mapsto> JString ''true'',
                 ''managed-by'' \<mapsto> JString ''triton-loadbalancer-controller'']\<rparr>"

text \<open>The loop joining the ACL entries with commas (the same in create and update).\<close>

fun joinACL :: "nat \<Rightarrow> string \<Rightarrow> string list \<Rightarrow> string" where
  "joinACL i aclString [] = aclString"
| "joinACL i aclString (acl # rest) =
     joinACL (Suc i) ((if 0 < i then aclString @ '','' else aclString) @ acl) rest"

text \<open>
  The metadata document written by \<^verbatim>\<open>CreateLoadBalancer\<close> and \<^verbatim>\<open>UpdateLoadBalancer\<close>
  (the two functions build it with the same statements).
\<close>

definition buildMetadata :: "LoadBalancerParams \<Rightarrow> metadata" where
  "buildMetadata params =
     (let metadata0 = [''cloud.tritoncompute:loadbalancer'' \<mapsto> JString ''true''];
          metadata1 = metadata0(''cloud.tritoncompute:portmap'' \<mapsto>
                        JString (encodePortmap (PortMappings params)));
          metadata2 = (if 0 < sint (MaxBackends params)
                       then metadata1(''cloud.tritoncompute:max_rs'' \<mapsto>
                              JString (Itoa (MaxBackends params)))
                       else metadata1);
          metadata3 = (if CertificateName params \<noteq> []
                       then metadata2(''cloud.tritoncompute:certificate_name'' \<mapsto>
                              JString (CertificateName params))
                       else metadata2)
      in if 0 < length (MetricsACL params)
         then metadata3(''cloud.tritoncompute:metrics_acl'' \<mapsto>
                JString (joinACL 0 [] (MetricsACL params)))
         else metadata3)"

text \<open>
  The timeout of a polling loop: 300 seconds unless the environment variable holds a
  positive integer.
\<close>

definition timeoutSeconds :: "string \<Rightarrow> go_int" where
  "timeoutSeconds timeoutEnv =
     (if timeoutEnv \<noteq> []
      then (case Atoi timeoutEnv of
              (parsedTimeout, None) \<Rightarrow> if 0 < sint parsedTimeout then parsedTimeout else 300
            | (parsedTimeout, Some err) \<Rightarrow> 300)
      else 300)"

text \<open>The number of iterations at 10 second intervals; Go's \<^verbatim>\<open>/\<close> truncates.\<close>

definition maxIterations :: "go_int \<Rightarrow> nat" where
  "maxIterations t = (let m = sint t sdiv 10 in if m < 1 then 1 else nat m)"

text \<open>
  How a polling loop ends: by a \<^verbatim>\<open>return\<close> inside the loop, or by running out of
  iterations.
\<close>

datatype loop_exit = Return "error option" | Exhausted

text \<open>
  The loop of \<^verbatim>\<open>CreateLoadBalancer\<close> that waits for the instance to run; \<open>n\<close> is the number
  of iterations left.
\<close>

fun provisionLoop :: "env \<Rightarrow> ctx \<Rightarrow> string \<Rightarrow> nat \<Rightarrow> call list \<Rightarrow> loop_exit \<times> call list" where
  "provisionLoop E ctx ident 0 L = (Exhausted, L)"
| "provisionLoop E ctx ident (Suc n) L =
     (if ctx L
      then (Return (Some (Error
              ''context cancelled while waiting for load balancer to provision'')), L)
      else (case GetInstance E L ident of
              Inl err \<Rightarrow>
                (Return (Some (Error (''error checking instance status: '' @ message err))),
                 L @ [GetCall ident])
            | Inr currentInstance \<Rightarrow>
                if inst_State currentInstance = ''running''
                then (Return None, L @ [GetCall ident])
                else provisionLoop E ctx ident n (L @ [GetCall ident, SleepCall 10])))"

text \<open>
  The request \<^verbatim>\<open>CreateLoadBalancer\<close> sends: the metadata, the package and the image
  (from the environment, with their defaults) and the ownership tags.
\<close>

definition createInput :: "env \<Rightarrow> LoadBalancerParams \<Rightarrow> CreateInstanceInput" where
  "createInput E params =
     (let metadata = buildMetadata params;
          packageName = (if Getenv E ''TRITON_LB_PACKAGE'' = [] then ''g4-highcpu-1G''
                         else Getenv E ''TRITON_LB_PACKAGE'');
          imageId = (if Getenv E ''TRITON_LB_IMAGE'' = []
                     then ''70e3ae72-96b6-11ea-9274-2f3c66e8b2c4''
                     else Getenv E ''TRITON_LB_IMAGE'')
      in \<lparr>ci_Name = Name params, ci_Package = packageName, ci_Image = imageId,
          ci_Metadata = metadata,
          ci_Tags = [''k8s-service'' \<mapsto> JString (Name params),
                     ''managed-by'' \<mapsto> JString ''triton-loadbalancer-controller'',
                     ''loadbalancer'' \<mapsto> JString ''true'']\<rparr>)"

definition CreateLoadBalancer ::
  "env \<Rightarrow> ctx \<Rightarrow> LoadBalancerParams \<Rightarrow> call list \<Rightarrow> error option \<times> call list" where
  "CreateLoadBalancer E ctx params L =
     (case CreateInstance E L (createInput E params) of
        Inl err \<Rightarrow> (Some err, L @ [CreateCall (createInput E params)])
      | Inr inst \<Rightarrow>
          let timeout = timeoutSeconds (Getenv E ''TRITON_PROVISION_TIMEOUT'')
          in (case provisionLoop E ctx (inst_ID inst) (maxIterations timeout)
                     (L @ [CreateCall (createInput E params)]) of
                (Return r, L') \<Rightarrow> (r, L')
              | (Exhausted, L') \<Rightarrow>
                  (Some (Error (''timed out waiting for load balancer to provision after '' @
                                Itoa timeout @ '' seconds'')), L')))"

text \<open>The loop of \<^verbatim>\<open>DeleteLoadBalancer\<close> that waits for the instance to leave the listing.\<close>

fun deleteLoop ::
  "env \<Rightarrow> ctx \<Rightarrow> ListInstancesInput \<Rightarrow> nat \<Rightarrow> call list \<Rightarrow> loop_exit \<times> call list" where
  "deleteLoop E ctx input 0 L = (Exhausted, L)"
| "deleteLoop E ctx input (Suc n) L =
     (if ctx L
      then (Return (Some (Error
              ''context cancelled while waiting for load balancer to be deleted'')), L)
      else (case ListInstances E L input of
              Inl err \<Rightarrow>
                (Return (Some (Error (''failed to check if instance was deleted: '' @
                                      message err))),
                 L @ [ListCall input])
            | Inr instances \<Rightarrow>
                if length instances = 0
                then (Return None, L @ [ListCall input])
                else deleteLoop E ctx input n (L @ [ListCall input, SleepCall 10])))"

definition DeleteLoadBalancer ::
  "env \<Rightarrow> ctx \<Rightarrow> string \<Rightarrow> call list \<Rightarrow> error option \<times> call list" where
  "DeleteLoadBalancer E ctx name L =
     (if name = [] then (Some (Error ''load balancer name cannot be empty''), L)
      else (case ListInstances E L (listInput name) of
              Inl err \<Rightarrow>
                (Some (Error (''failed to list instances: '' @ message err)),
                 L @ [ListCall (listInput name)])
            | Inr instances \<Rightarrow>
                (case instances of
                   [] \<Rightarrow> (None, L @ [ListCall (listInput name)])
                 | first # others \<Rightarrow>
                     let L1 = L @ [ListCall (listInput name)]
                     in (case DeleteInstance E L1 (inst_ID first) of
                           Some err \<Rightarrow>
                             (Some (Error (''failed to delete instance '' @ inst_ID first @
                                           '': '' @ message err)),
                              L1 @ [DeleteCall (inst_ID first)])
                         | None \<Rightarrow>
                             let timeout = timeoutSeconds (Getenv E ''TRITON_DELETE_TIMEOUT'')
                             in (case deleteLoop E ctx (listInput name) (maxIterations timeout)
                                        (L1 @ [DeleteCall (inst_ID first)]) of
                                   (Return r, L') \<Rightarrow> (r, L')
                                 | (Exhausted, L') \<Rightarrow>
                                     (Some (Error (''timed out waiting for load balancer '' @
                                                   name @ '' to be deleted after '' @
                                                   Itoa timeout @ '' seconds'')), L'))))))"

definition UpdateLoadBalancer ::
  "env \<Rightarrow> ctx \<Rightarrow> string \<Rightarrow> LoadBalancerParams \<Rightarrow> call list \<Rightarrow> error option \<times> call list" where
  "UpdateLoadBalancer E ctx name params L =
     (case ListInstances E L (listInput name) of
        Inl err \<Rightarrow> (Some err, L @ [ListCall (listInput name)])
      | Inr instances \<Rightarrow>
          (case instances of
             [] \<Rightarrow> (Some (Error (''load balancer '' @ name @ '' not found'')),
                    L @ [ListCall (listInput name)])
           | first # others \<Rightarrow>
               let L1 = L @ [ListCall (listInput name)];
                   metadata = buildMetadata params
               in (case UpdateMetadata E L1 (inst_ID first) metadata of
                     Some err \<Rightarrow> (Some err, L1 @ [UpdateMetadataCall (inst_ID first) metadata])
                   | None \<Rightarrow> (None, L1 @ [UpdateMetadataCall (inst_ID first) metadata]))))"

text \<open>
  \<^verbatim>\<open>GetLoadBalancer\<close> returns a pointer and an error, never both: \<open>Inl\<close> is the error,
  \<open>Inr None\<close> the pair \<^verbatim>\<open>(nil, nil)\<close>.
\<close>

definition paramsOfMetadata :: "string \<Rightarrow> metadata \<Rightarrow> LoadBalancerParams" where
  "paramsOfMetadata name md =
     (let params0 = \<lparr>Name = name, PortMappings = [], MaxBackends = 0, CertificateName = [],
                      MetricsACL = []\<rparr>;
          params1 = (case md ''cloud.tritoncompute:portmap'' of
                       Some (JString portmapStr) \<Rightarrow>
                         params0\<lparr>PortMappings := parsePortMap portmapStr\<rparr>
                     | _ \<Rightarrow> params0);
          params2 = (case md ''cloud.tritoncompute:max_rs'' of
                       Some (JString maxRSStr) \<Rightarrow>
                         (case Atoi maxRSStr of
                            (maxRS, None) \<Rightarrow> params1\<lparr>MaxBackends := maxRS\<rparr>
                          | (maxRS, Some err) \<Rightarrow> params1)
                     | _ \<Rightarrow> params1);
          params3 = (case md ''cloud.tritoncompute:certificate_name'' of
                       Some (JString certName) \<Rightarrow> params2\<lparr>CertificateName := certName\<rparr>
                     | _ \<Rightarrow> params2)
      in (case md ''cloud.tritoncompute:metrics_acl'' of
            Some (JString metricsACL) \<Rightarrow>
              params3\<lparr>MetricsACL :=
                filter (\<lambda>acl. acl \<noteq> [])
                             (FieldsFunc metricsACL (\<lambda>r. r = CHR '','' \<or> r = CHR '' ''))\<rparr>
          | _ \<Rightarrow> params3))"

definition GetLoadBalancer ::
  "env \<Rightarrow> ctx \<Rightarrow> string \<Rightarrow> call list \<Rightarrow> (error + LoadBalancerParams option) \<times> call list" where
  "GetLoadBalancer E ctx name L =
     (case ListInstances E L (listInput name) of
        Inl err \<Rightarrow> (Inl err, L @ [ListCall (listInput name)])
      | Inr instances \<Rightarrow>
          (case instances of
             [] \<Rightarrow> (Inr None, L @ [ListCall (listInput name)])
           | first # others \<Rightarrow>
               let L1 = L @ [ListCall (listInput name)]
               in (case GetInstance E L1 (inst_ID first) of
                     Inl err \<Rightarrow> (Inl err, L1 @ [GetCall (inst_ID first)])
                   | Inr inst \<Rightarrow>
                       (Inr (Some (paramsOfMetadata name (inst_Metadata inst))),
                        L1 @ [GetCall (inst_ID first)]))))"

definition GetInstanceByName ::
  "env \<Rightarrow> ctx \<Rightarrow> string \<Rightarrow> call list \<Rightarrow> (error + TritonInstance option) \<times> call list" where
  "GetInstanceByName E ctx name L =
     (case ListInstances E L (listInput name) of
        Inl err \<Rightarrow> (Inl err, L @ [ListCall (listInput name)])
      | Inr instances \<Rightarrow>
          (case instances of
             [] \<Rightarrow> (Inr None, L @ [ListCall (listInput name)])
           | first # others \<Rightarrow>
               let L1 = L @ [ListCall (listInput name)]
               in (case GetInstance E L1 (inst_ID first) of
                     Inl err \<Rightarrow> (Inl err, L1 @ [GetCall (inst_ID first)])
                   | Inr inst \<Rightarrow>
                       (Inr (Some \<lparr>ti_ID = inst_ID inst, ti_Name = inst_Name inst,
                                   ti_IPs = inst_IPs inst, ti_Tags = inst_Tags inst\<rparr>),
                        L1 @ [GetCall (inst_ID first)]))))"

section \<open>The reconciler\<close>

text \<open>\<^verbatim>\<open>ctrl.Result\<close>; \<open>RequeueAfter\<close> is a \<^verbatim>\<open>time.Duration\<close>, in nanoseconds.\<close>

record Result =
  Requeue :: bool
  RequeueAfter :: int

definition emptyResult :: Result where
  "emptyResult = \<lparr>Requeue = False, RequeueAfter = 0\<rparr>"

text \<open>\<^verbatim>\<open>DeletionTimestamp.IsZero()\<close>: a nil pointer or the zero time.\<close>

fun IsZero :: "Time option \<Rightarrow> bool" where
  "IsZero None = True"
| "IsZero (Some ZeroTime) = True"
| "IsZero (Some (TimeAt t)) = False"

text \<open>
  The body of the loop over \<^verbatim>\<open>service.Spec.Ports\<close> in \<^verbatim>\<open>extractLoadBalancerParams\<close>: the
  mapping appended for one port.
\<close>

definition portMapping :: "Service \<Rightarrow> ServicePort \<Rightarrow> PortMapping" where
  "portMapping service port =
     (let portType =
            (if port_Name port = ''http'' \<or> port_Port port = 80 then ''http''
             else if port_Name port = ''https'' \<or> port_Port port = 443 then ''https''
             else ''tcp'')
      in \<lparr>Type = portType, ListenPort = scast (port_Port port),
          BackendName = svc_Name service, BackendPort = scast (port_TargetPortIntVal port)\<rparr>)"

fun portLoop :: "Service \<Rightarrow> PortMapping list \<Rightarrow> ServicePort list \<Rightarrow> PortMapping list" where
  "portLoop service mappings [] = mappings"
| "portLoop service mappings (port # rest) =
     portLoop service (mappings @ [portMapping service port]) rest"

text \<open>The function returns the parameters and an error, which is always \<^verbatim>\<open>nil\<close>.\<close>

definition extractLoadBalancerParams :: "Service \<Rightarrow> LoadBalancerParams \<times> error option" where
  "extractLoadBalancerParams service =
     (let params0 = \<lparr>Name = svc_Name service, PortMappings = [], MaxBackends = 0,
                      CertificateName = [], MetricsACL = []\<rparr>;
          params1 = params0\<lparr>PortMappings := portLoop service [] (svc_Ports service)\<rparr>;
          annotations = svc_Annotations service;
          params2 = (case annotations ''cloud.tritoncompute/max_rs'' of
                       Some maxRS \<Rightarrow>
                         (case Atoi maxRS of
                            (maxRSInt, None) \<Rightarrow> params1\<lparr>MaxBackends := maxRSInt\<rparr>
                          | (maxRSInt, Some err) \<Rightarrow> params1)
                     | None \<Rightarrow> params1);
          params3 = (case annotations ''cloud.tritoncompute/certificate_name'' of
                       Some certName \<Rightarrow> params2\<lparr>CertificateName := certName\<rparr>
                     | None \<Rightarrow> params2);
          params4 = (case annotations ''cloud.tritoncompute/metrics_acl'' of
                       Some metricsACL \<Rightarrow>
                         params3\<lparr>MetricsACL :=
                           filter (\<lambda>acl. acl \<noteq> [])
                             (FieldsFunc metricsACL (\<lambda>r. r = CHR '','' \<or> r = CHR '' ''))\<rparr>
                     | None \<Rightarrow> params3)
      in (params4, None))"

text \<open>
  The search for a public address: the loop stops at the first address without one of the
  three prefixes; \<open>lbIP\<close> stays empty when there is none.
\<close>

fun findPublicIP :: "string list \<Rightarrow> string" where
  "findPublicIP [] = []"
| "findPublicIP (ip # rest) =
     (if \<not> HasPrefix ip ''10.'' \<and> \<not> HasPrefix ip ''192.168.'' \<and> \<not> HasPrefix ip ''172.''
      then ip else findPublicIP rest)"

text \<open>
  The end of \<^verbatim>\<open>reconcileNormal\<close>: the status update from the instance that
  \<^verbatim>\<open>GetInstanceByName\<close> returned (\<open>None\<close> for \<^verbatim>\<open>nil\<close>).
\<close>

definition updateStatus ::
  "env \<Rightarrow> Service \<Rightarrow> TritonInstance option \<Rightarrow> call list \<Rightarrow> (Result \<times> error option) \<times> call list"
  where
  "updateStatus E service lbInstance L =
     (case lbInstance of
        None \<Rightarrow> ((emptyResult, None), L)
      | Some i \<Rightarrow>
          if 0 < length (ti_IPs i)
          then
            let lbIP0 = findPublicIP (ti_IPs i);
                lbIP = (if lbIP0 = [] \<and> 0 < length (ti_IPs i) then ti_IPs i ! 0 else lbIP0)
            in if lbIP \<noteq> []
               then
                 let updatedService = service\<lparr>svc_Ingress := [\<lparr>IP = lbIP, Hostname = []\<rparr>]\<rparr>
                 in (case StatusUpdate E L updatedService of
                       Some err \<Rightarrow> ((emptyResult, Some err), L @ [StatusUpdateCall updatedService])
                     | None \<Rightarrow> ((emptyResult, None), L @ [StatusUpdateCall updatedService]))
               else ((emptyResult, None), L)
          else ((emptyResult, None), L))"

definition reconcileNormal ::
  "env \<Rightarrow> ctx \<Rightarrow> Service \<Rightarrow> call list \<Rightarrow> (Result \<times> error option) \<times> call list" where
  "reconcileNormal E ctx service L =
     (case extractLoadBalancerParams service of
        (lbParams, Some err) \<Rightarrow> ((emptyResult, Some err), L)
      | (lbParams, None) \<Rightarrow>
          (case GetLoadBalancer E ctx (svc_Name service) L of
             (Inl err, L1) \<Rightarrow> ((emptyResult, Some err), L1)
           | (Inr existingLB, L1) \<Rightarrow>
               (case (case existingLB of
                        None \<Rightarrow> CreateLoadBalancer E ctx lbParams L1
                      | Some lb \<Rightarrow> UpdateLoadBalancer E ctx (svc_Name service) lbParams L1) of
                  (Some err, L2) \<Rightarrow> ((emptyResult, Some err), L2)
                | (None, L2) \<Rightarrow>
                    (case GetLoadBalancer E ctx (svc_Name service) L2 of
                       (Inl err, L3) \<Rightarrow> ((emptyResult, Some err), L3)
                     | (Inr loadBalancer, L3) \<Rightarrow>
                         (case GetInstanceByName E ctx (svc_Name service) L3 of
                            (Inl err, L4) \<Rightarrow> ((emptyResult, Some err), L4)
                          | (Inr lbInstance, L4) \<Rightarrow> updateStatus E service lbInstance L4)))))"

definition reconcileDelete ::
  "env \<Rightarrow> ctx \<Rightarrow> Service \<Rightarrow> call list \<Rightarrow> (Result \<times> error option) \<times> call list" where
  "reconcileDelete E ctx service L =
     (case DeleteLoadBalancer E ctx (svc_Name service) L of
        (Some err, L1) \<Rightarrow> ((emptyResult, Some err), L1)
      | (None, L1) \<Rightarrow> ((emptyResult, None), L1))"

text \<open>\<^verbatim>\<open>Reconcile\<close> for the request \<open>(namespace, name)\<close>.\<close>

definition Reconcile ::
  "env \<Rightarrow> string \<Rightarrow> string \<Rightarrow> call list \<Rightarrow> (Result \<times> error option) \<times> call list" where
  "Reconcile E namespace name L =
     (let ctx = Background;
          L1 = L @ [KubeGetCall namespace name]
      in case KubeGet E L namespace name of
           Inl err \<Rightarrow>
             if IsNotFound err then ((emptyResult, None), L1)
             else ((emptyResult, Some err), L1)
         | Inr service \<Rightarrow>
             if svc_Type service \<noteq> ''LoadBalancer'' then ((emptyResult, None), L1)
             else if \<not> IsZero (svc_DeletionTimestamp service)
             then reconcileDelete E ctx service L1
             else reconcileNormal E ctx service L1)"

section \<open>Notions used to state the properties\<close>

text \<open>The text of one port mapping in the portmap string.\<close>

definition entryText :: "PortMapping \<Rightarrow> string" where
  "entryText m =
     Type m @ ''://'' @ Itoa (ListenPort m) @ '':'' @ BackendName m @
     (if 0 < sint (BackendPort m) then '':'' @ Itoa (BackendPort m) else [])"

text \<open>
  A mapping that the delimiters of the portmap format cannot break: no comma and no
  \<^verbatim>\<open>://\<close> in the type, no comma and no colon in the backend name, and a backend port that
  is not negative.
\<close>

definition codec_safe :: "PortMapping \<Rightarrow> bool" where
  "codec_safe m \<longleftrightarrow>
     CHR '','' \<notin> set (Type m) \<and> \<not> Contains (Type m) ''://'' \<and>
     CHR '','' \<notin> set (BackendName m) \<and> CHR '':'' \<notin> set (BackendName m) \<and>
     0 \<le> sint (BackendPort m)"

text \<open>A decimal integer as a text: an optional sign, then one digit or more.\<close>

definition integer_text :: "string \<Rightarrow> bool" where
  "integer_text s \<longleftrightarrow>
     (case s of
        [] \<Rightarrow> False
      | c # cs \<Rightarrow>
          if c = CHR ''+'' \<or> c = CHR ''-'' then cs \<noteq> [] \<and> list_all is_digit cs
          else list_all is_digit (c # cs))"

text \<open>An address in one of the private ranges, as the reconciler recognises them.\<close>

definition private_prefix :: "string \<Rightarrow> bool" where
  "private_prefix ip \<longleftrightarrow> HasPrefix ip ''10.'' \<or> HasPrefix ip ''192.168.'' \<or> HasPrefix ip ''172.''"

section \<open>Concrete scenarios\<close>

text \<open>
  The Service of the repository's reconciler tests: type LoadBalancer, one unnamed port
  80 with target port 8080, no annotations.
\<close>

definition test_service :: Service where
  "test_service =
     \<lparr>svc_Name = ''test-service'', svc_Namespace = ''default'', svc_Annotations = Map.empty,
      svc_DeletionTimestamp = None, svc_Type = ''LoadBalancer'',
      svc_Ports = [\<lparr>port_Name = [], port_Port = 80, port_TargetPortIntVal = 8080\<rparr>],
      svc_Ingress = []\<rparr>"

text \<open>
  A Triton account without instances whose create call fails with the message of
  \<^verbatim>\<open>TestReconcileTransientError\<close>, and a Kubernetes API that serves \<open>test_service\<close>.
\<close>

definition empty_cloud :: env where
  "empty_cloud =
     \<lparr>ListInstances = (\<lambda>L input. Inr []),
      CreateInstance = (\<lambda>L input. Inl (Error ''connection timeout'')),
      GetInstance = (\<lambda>L ident. Inl (Error ''ResourceNotFound'')),
      DeleteInstance = (\<lambda>L ident. None),
      UpdateMetadata = (\<lambda>L ident md. None),
      KubeGet = (\<lambda>L namespace name. Inr test_service),
      StatusUpdate = (\<lambda>L service. None),
      Getenv = (\<lambda>key. [])\<rparr>"

text \<open>An instance in the given state with the given addresses.\<close>

definition lb_instance :: "string \<Rightarrow> string list \<Rightarrow> Instance" where
  "lb_instance state ips =
     \<lparr>inst_ID = ''lb-1'', inst_Name = ''test-service'', inst_State = state, inst_IPs = ips,
      inst_Metadata = Map.empty, inst_Tags = Map.empty\<rparr>"

text \<open>
  A Triton account in which the instance \<open>lb-1\<close> always exists in the given state: it
  never finishes provisioning when the state is not \<^verbatim>\<open>running\<close>, and it never leaves the
  listing. The environment holds \<open>timeoutEnv\<close> for both timeout variables.
\<close>

definition stuck_cloud :: "string \<Rightarrow> string list \<Rightarrow> string \<Rightarrow> env" where
  "stuck_cloud state ips timeoutEnv =
     \<lparr>ListInstances = (\<lambda>L input. Inr [lb_instance state ips]),
      CreateInstance = (\<lambda>L input. Inr (lb_instance state ips)),
      GetInstance = (\<lambda>L ident. Inr (lb_instance state ips)),
      DeleteInstance = (\<lambda>L ident. None),
      UpdateMetadata = (\<lambda>L ident md. None),
      KubeGet = (\<lambda>L namespace name. Inr test_service),
      StatusUpdate = (\<lambda>L service. None),
      Getenv = (\<lambda>key. if key = ''TRITON_PROVISION_TIMEOUT'' \<or> key = ''TRITON_DELETE_TIMEOUT''
                       then timeoutEnv else [])\<rparr>"

text \<open>The timeouts the two polling loops read from the environment.\<close>

abbreviation provisionTimeout :: "env \<Rightarrow> go_int" where
  "provisionTimeout E \<equiv> timeoutSeconds (Getenv E ''TRITON_PROVISION_TIMEOUT'')"

abbreviation deleteTimeout :: "env \<Rightarrow> go_int" where
  "deleteTimeout E \<equiv> timeoutSeconds (Getenv E ''TRITON_DELETE_TIMEOUT'')"

text \<open>
  A Triton account that is empty until an instance is created: the listing shows the
  instance, running and with the given addresses, once a create call has been made.
\<close>

fun is_create :: "call \<Rightarrow> bool" where
  "is_create (CreateCall input) = True"
| "is_create c = False"

definition fresh_cloud :: "string list \<Rightarrow> env" where
  "fresh_cloud ips =
     \<lparr>ListInstances = (\<lambda>L input. if list_ex is_create L then Inr [lb_instance ''running'' ips]
                                 else Inr []),
      CreateInstance = (\<lambda>L input. Inr (lb_instance ''provisioning'' ips)),
      GetInstance = (\<lambda>L ident. Inr (lb_instance ''running'' ips)),
      DeleteInstance = (\<lambda>L ident. None),
      UpdateMetadata = (\<lambda>L ident md. None),
      KubeGet = (\<lambda>L namespace name. Inr test_service),
      StatusUpdate = (\<lambda>L service. None),
      Getenv = (\<lambda>key. [])\<rparr>"

text \<open>
  Services and instances for the examples: four ports of different kinds, a port named
  \<^verbatim>\<open>https\<close> on number 80, a \<^verbatim>\<open>max_rs\<close> annotation that is not a number, a Service of type
  ClusterIP, and an instance with given addresses.
\<close>

definition four_ports :: Service where
  "four_ports = test_service\<lparr>svc_Ports :=
     [\<lparr>port_Name = [], port_Port = 80, port_TargetPortIntVal = 8080\<rparr>,
      \<lparr>port_Name = ''http'', port_Port = 9090, port_TargetPortIntVal = 9090\<rparr>,
      \<lparr>port_Name = ''https'', port_Port = 8443, port_TargetPortIntVal = 8443\<rparr>,
      \<lparr>port_Name = ''mysql'', port_Port = 3306, port_TargetPortIntVal = 3306\<rparr>]\<rparr>"

definition https_on_80 :: Service where
  "https_on_80 = test_service\<lparr>svc_Ports :=
     [\<lparr>port_Name = ''https'', port_Port = 80, port_TargetPortIntVal = 8443\<rparr>]\<rparr>"

definition invalid_max_rs :: Service where
  "invalid_max_rs = test_service\<lparr>svc_Annotations :=
     [''cloud.tritoncompute/max_rs'' \<mapsto> ''invalid'']\<rparr>"

definition cluster_ip_api :: env where
  "cluster_ip_api = empty_cloud\<lparr>KubeGet :=
     (\<lambda>L namespace name. Inr (test_service\<lparr>svc_Type := ''ClusterIP''\<rparr>))\<rparr>"

definition addresses :: "string list \<Rightarrow> TritonInstance" where
  "addresses ips = \<lparr>ti_ID = ''lb-1'', ti_Name = ''test-service'', ti_IPs = ips,
     ti_Tags = Map.empty\<rparr>"

section \<open>The portmap encoding: lemmas\<close>

lemma SplitN_two:
  "SplitN s sep 2 =
     (case Index s sep of None \<Rightarrow> [s] | Some i \<Rightarrow> [take i s, drop (i + length sep) s])"
  by (simp add: numeral_2_eq_2 split: option.split)

text \<open>The equations that evaluate the definitions on concrete inputs.\<close>

lemmas eval_defs = parsePortMap_def Split_def parseEntry_def HasPrefix_def Atoi_def is_digit_def
  digit_val_def Let_def SplitN_two encodePortmap_def Itoa_def digit_char_def integer_text_def
  Contains_def codec_safe_def

lemma digit_char_props:
  assumes "n < 10"
  shows "is_digit (digit_char n) \<and> digit_val (digit_char n) = n \<and>
    digit_char n \<noteq> CHR '','' \<and> digit_char n \<noteq> CHR '':'' \<and>
    digit_char n \<noteq> CHR ''-'' \<and> digit_char n \<noteq> CHR ''+''"
proof -
  from assms have "n \<in> {0, 1, 2, 3, 4, 5, 6, 7, 8, 9}" by auto
  then show ?thesis
    by (auto simp: is_digit_def digit_val_def digit_char_def)
qed

lemma parse_digits_append:
  "parse_digits k (xs @ ys) =
     (case parse_digits k xs of None \<Rightarrow> None | Some v \<Rightarrow> parse_digits v ys)"
  by (induction xs arbitrary: k) auto

lemma parse_digits_digits10: "parse_digits 0 (digits10 n) = Some n"
proof (induction n rule: digits10.induct)
  case (1 n)
  show ?case
  proof (cases "n < 10")
    case True
    then show ?thesis
      by (simp add: digits10.simps [of n] digit_char_props)
  next
    case False
    then have "parse_digits 0 (digits10 (n div 10)) = Some (n div 10)"
      using "1.IH" by simp
    moreover have "n mod 10 < 10" by simp
    ultimately show ?thesis
      using False
      by (simp add: digits10.simps [of n] parse_digits_append digit_char_props)
  qed
qed

lemma digits10_chars:
  "c \<in> set (digits10 n) \<Longrightarrow> c \<noteq> CHR '','' \<and> c \<noteq> CHR '':'' \<and> c \<noteq> CHR ''-'' \<and> c \<noteq> CHR ''+''"
proof (induction n rule: digits10.induct)
  case (1 n)
  show ?case
  proof (cases "n < 10")
    case True
    with "1.prems" show ?thesis
      by (simp add: digits10.simps [of n] digit_char_props)
  next
    case False
    have "n mod 10 < 10" by simp
    with False "1.prems" "1.IH" show ?thesis
      by (auto simp: digits10.simps [of n] digit_char_props)
  qed
qed

lemma digits10_not_Nil: "digits10 n \<noteq> []"
  by (simp add: digits10.simps [of n])

lemma hd_digits10: "hd (digits10 n) \<noteq> CHR ''-'' \<and> hd (digits10 n) \<noteq> CHR ''+''"
  using digits10_chars [of "hd (digits10 n)" n] digits10_not_Nil [of n] by simp

lemma Atoi_Itoa: "Atoi (Itoa w) = (w, None)"
proof (cases "sint w < 0")
  case True
  have lo: "- (2 ^ 63) \<le> sint w"
    using sint_ge [of w] by simp
  then have bound: "\<not> 2 ^ 63 < nat (- sint w)"
    by simp
  have "- (of_nat (nat (- sint w)) :: 64 word) = w"
    using True by simp
  with True bound show ?thesis
    by (simp add: Atoi_def Itoa_def digits10_not_Nil parse_digits_digits10)
next
  case False
  have "sint w < 2 ^ 63"
    using sint_lt [of w] by simp
  with False have bound: "\<not> 2 ^ 63 \<le> nat (sint w)"
    by simp
  have "(of_nat (nat (sint w)) :: 64 word) = w"
    using False by simp
  with False bound show ?thesis
    by (simp add: Atoi_def Itoa_def digits10_not_Nil parse_digits_digits10 hd_digits10)
qed

lemma Itoa_chars: "c \<in> set (Itoa w) \<Longrightarrow> c \<noteq> CHR '','' \<and> c \<noteq> CHR '':''"
  using digits10_chars by (auto simp: Itoa_def split: if_splits)

lemma splitWhen_not_Nil: "splitWhen f s \<noteq> []"
  by (induction s) (auto split: list.splits)

lemma splitWhen_none: "\<forall>x \<in> set a. \<not> f x \<Longrightarrow> splitWhen f a = [a]"
  by (induction a) auto

lemma splitWhen_first: "\<forall>x \<in> set a. \<not> f x \<Longrightarrow> f c \<Longrightarrow> splitWhen f (a @ c # b) = a # splitWhen f b"
  by (induction a) auto

lemma Split_none: "c \<notin> set a \<Longrightarrow> Split a c = [a]"
  using splitWhen_none [of a "\<lambda>x. x = c"] by (auto simp: Split_def)

lemma Split_first: "c \<notin> set a \<Longrightarrow> Split (a @ c # b) c = a # Split b c"
  using splitWhen_first [of a "\<lambda>x. x = c" c b] by (auto simp: Split_def)

lemma Index_first:
  "\<not> Contains t ''://'' \<Longrightarrow> Index (t @ ''://'' @ r) ''://'' = Some (length t)"
proof (induction t)
  case Nil
  then show ?case by (simp add: HasPrefix_def)
next
  case (Cons c cs)
  from Cons.prems have np: "\<not> HasPrefix (c # cs) ''://''" and nc: "\<not> Contains cs ''://''"
    by (auto simp: Contains_def split: if_splits)
  have "\<not> HasPrefix ((c # cs) @ ''://'' @ r) ''://''"
  proof (cases cs)
    case Nil
    then show ?thesis by (simp add: HasPrefix_def)
  next
    case (Cons d ds)
    note cs = this
    show ?thesis
    proof (cases ds)
      case Nil
      with cs show ?thesis by (simp add: HasPrefix_def)
    next
      case (Cons e es)
      with cs np show ?thesis by (simp add: HasPrefix_def)
    qed
  qed
  with Cons.IH [OF nc] show ?case by simp
qed

lemma SplitN_first:
  "\<not> Contains t ''://'' \<Longrightarrow> SplitN (t @ ''://'' @ r) ''://'' 2 = [t, r]"
  using Index_first [of t r] by (simp add: SplitN_two)

lemma Index_None_iff: "Index s ''://'' = None \<longleftrightarrow> \<not> Contains s ''://''"
  by (simp add: Contains_def)

lemma parseLoop_map_filter: "parseLoop acc es = acc @ List.map_filter parseEntry es"
  by (induction es arbitrary: acc) (auto split: option.splits)

lemma buildPortmap_Suc:
  "buildPortmap (Suc i) acc ms = acc @ concat (map (\<lambda>m. CHR '','' # entryText m) ms)"
  by (induction ms arbitrary: i acc) (auto simp: entryText_def Let_def)

lemma encodePortmap_Nil: "encodePortmap [] = []"
  by (simp add: encodePortmap_def)

lemma encodePortmap_Cons:
  "encodePortmap (m # ms) = entryText m @ concat (map (\<lambda>m. CHR '','' # entryText m) ms)"
  by (simp add: encodePortmap_def buildPortmap_Suc Let_def entryText_def)

lemma Split_joined:
  "CHR '','' \<notin> set e \<Longrightarrow> \<forall>m \<in> set ms. CHR '','' \<notin> set (entryText m) \<Longrightarrow>
   Split (e @ concat (map (\<lambda>m. CHR '','' # entryText m) ms)) CHR '','' = e # map entryText ms"
proof (induction ms arbitrary: e)
  case Nil
  then show ?case by (simp add: Split_none)
next
  case (Cons m ms)
  then show ?case by (simp add: Split_first)
qed

lemma entryText_no_comma: "codec_safe m \<Longrightarrow> CHR '','' \<notin> set (entryText m)"
  using Itoa_chars by (auto simp: codec_safe_def entryText_def)

lemma Itoa_no_colon: "CHR '':'' \<notin> set (Itoa w)"
  using Itoa_chars by blast

lemma parseEntry_entryText:
  assumes "codec_safe m"
  shows "parseEntry (entryText m) = Some m"
proof -
  let ?r = "Itoa (ListenPort m) @ '':'' @ BackendName m @
     (if 0 < sint (BackendPort m) then '':'' @ Itoa (BackendPort m) else [])"
  from assms have nt: "\<not> Contains (Type m) ''://''" and nn: "CHR '':'' \<notin> set (BackendName m)"
    and bp: "0 \<le> sint (BackendPort m)"
    by (simp_all add: codec_safe_def)
  have parts: "SplitN (entryText m) ''://'' 2 = [Type m, ?r]"
    using SplitN_first [OF nt, of ?r] by (simp add: entryText_def)
  show ?thesis
  proof (cases "0 < sint (BackendPort m)")
    case True
    have "Split ?r CHR '':'' = [Itoa (ListenPort m), BackendName m, Itoa (BackendPort m)]"
      using True nn Split_first [OF Itoa_no_colon, of "ListenPort m"] 
        Split_first [OF nn] Split_none [OF Itoa_no_colon, of "BackendPort m"]
      by simp
    with parts show ?thesis
      by (simp add: parseEntry_def Atoi_Itoa)
  next
    case False
    with bp have z: "BackendPort m = 0"
    proof -
      from False bp have "sint (BackendPort m) = 0" by simp
      then have "word_of_int (sint (BackendPort m)) = (word_of_int 0 :: 64 word)" by simp
      then show ?thesis by simp
    qed
    have "Split ?r CHR '':'' = [Itoa (ListenPort m), BackendName m]"
      using False nn Split_first [OF Itoa_no_colon, of "ListenPort m"] Split_none [OF nn]
      by simp
    with parts z show ?thesis
      by (simp add: parseEntry_def Atoi_Itoa)
  qed
qed

lemma parseEntry_Nil: "parseEntry [] = None"
  by (simp add: parseEntry_def SplitN_two HasPrefix_def)

lemma map_filter_parse:
  "\<forall>m \<in> set ms. codec_safe m \<Longrightarrow> List.map_filter parseEntry (map entryText ms) = ms"
  by (induction ms) (auto simp: parseEntry_entryText)

text \<open>
  C2 (as amended). Decoding the portmap string that the client's own encoder builds gives
  back the list of port mappings, element for element and in order, for every list of
  mappings that the delimiters cannot break (\<open>codec_safe\<close>).
\<close>

theorem portmap_roundtrip:
  assumes "\<forall>m \<in> set ms. codec_safe m"
  shows "parsePortMap (encodePortmap ms) = ms"
proof (cases ms)
  case Nil
  then show ?thesis
    by (simp add: parsePortMap_def encodePortmap_Nil Split_def parseEntry_Nil)
next
  case (Cons m rest)
  with assms have "Split (encodePortmap ms) CHR '','' = map entryText ms"
    using Split_joined [of "entryText m" rest]
    by (simp add: encodePortmap_Cons entryText_no_comma)
  with assms show ?thesis
    by (simp add: parsePortMap_def parseLoop_map_filter map_filter_parse)
qed

theorem portmap_roundtrip_witness:
  "codec_safe \<lparr>Type = ''http'', ListenPort = 80, BackendName = ''web-service'',
                BackendPort = 0\<rparr> \<and>
   codec_safe \<lparr>Type = ''https'', ListenPort = 443, BackendName = ''web-service'',
                BackendPort = 8443\<rparr> \<and>
   parsePortMap (encodePortmap
     [\<lparr>Type = ''http'', ListenPort = 80, BackendName = ''web-service'', BackendPort = 0\<rparr>,
      \<lparr>Type = ''https'', ListenPort = 443, BackendName = ''web-service'',
        BackendPort = 8443\<rparr>]) =
     [\<lparr>Type = ''http'', ListenPort = 80, BackendName = ''web-service'', BackendPort = 0\<rparr>,
      \<lparr>Type = ''https'', ListenPort = 443, BackendName = ''web-service'',
        BackendPort = 8443\<rparr>]"
proof -
  have s1: "codec_safe \<lparr>Type = ''http'', ListenPort = 80, BackendName = ''web-service'',
                BackendPort = 0\<rparr>"
    by (simp add: eval_defs)
  have s2: "codec_safe \<lparr>Type = ''https'', ListenPort = 443, BackendName = ''web-service'',
                BackendPort = 8443\<rparr>"
    by (simp add: eval_defs)
  from s1 s2
  have "\<forall>m \<in> set [\<lparr>Type = ''http'', ListenPort = 80, BackendName = ''web-service'',
                     BackendPort = 0\<rparr>,
                   \<lparr>Type = ''https'', ListenPort = 443, BackendName = ''web-service'',
                     BackendPort = 8443\<rparr>]. codec_safe m"
    by simp
  from s1 s2 portmap_roundtrip [OF this] show ?thesis
    by blast
qed

text \<open>
  A backend name with a colon in it does not survive the round trip: the decoder cuts the
  name at the colon and reads the rest as the backend port.
\<close>

theorem portmap_roundtrip_counterexample:
  "parsePortMap (encodePortmap
     [\<lparr>Type = ''http'', ListenPort = 80, BackendName = ''a:b'', BackendPort = 0\<rparr>]) =
     [\<lparr>Type = ''http'', ListenPort = 80, BackendName = ''a'', BackendPort = 0\<rparr>] \<and>
   parsePortMap (encodePortmap
     [\<lparr>Type = ''http'', ListenPort = 80, BackendName = ''a:b'', BackendPort = 0\<rparr>]) \<noteq>
     [\<lparr>Type = ''http'', ListenPort = 80, BackendName = ''a:b'', BackendPort = 0\<rparr>]"
  by (simp add: eval_defs digits10.simps)

lemma parse_digits_None: "\<not> list_all is_digit cs \<Longrightarrow> parse_digits n cs = None"
  by (induction cs arbitrary: n) auto

lemma Atoi_not_integer: "\<not> integer_text s \<Longrightarrow> Atoi s = (0, Some ErrSyntax)"
  by (cases s) (auto simp: integer_text_def Atoi_def parse_digits_None split: if_splits)






text \<open>
  The two segments are the ones of \<^verbatim>\<open>SplitN\<close> with limit 2: an entry is cut at its first
  \<^verbatim>\<open>://\<close> only, so a second \<^verbatim>\<open>://\<close> stays in the remainder and does not drop the entry.
\<close>

lemma second_separator_kept:
  "SplitN ''tcp://80:x://y'' ''://'' 2 = [''tcp'', ''80:x://y''] \<and>
   parsePortMap ''tcp://80:x://y'' =
     [\<lparr>Type = ''tcp'', ListenPort = 80, BackendName = ''x'', BackendPort = 0\<rparr>]"
  by (simp add: eval_defs)


section \<open>The intent extractor\<close>

lemma portLoop_map: "portLoop service acc ports = acc @ map (portMapping service) ports"
  by (induction ports arbitrary: acc) auto

lemma extract_PortMappings:
  "PortMappings (fst (extractLoadBalancerParams service)) =
     map (portMapping service) (svc_Ports service)"
  by (simp add: extractLoadBalancerParams_def portLoop_map Let_def split: option.splits prod.splits)

text \<open>
  C4 (as amended). Every service port is classified on its own, by the first rule that
  applies: a port named \<^verbatim>\<open>http\<close> or numbered 80 gets the type \<^verbatim>\<open>http\<close>; a port that
  is neither, and is named \<^verbatim>\<open>https\<close> or numbered 443, gets \<^verbatim>\<open>https\<close>; every other port
  gets \<^verbatim>\<open>tcp\<close>. The i-th mapping is the one of the i-th port.
\<close>

theorem port_classification:
  "length (PortMappings (fst (extractLoadBalancerParams service))) = length (svc_Ports service) \<and>
   (\<forall>i < length (svc_Ports service).
      ((port_Name (svc_Ports service ! i) = ''http'' \<or> port_Port (svc_Ports service ! i) = 80) \<longrightarrow>
         Type (PortMappings (fst (extractLoadBalancerParams service)) ! i) = ''http'') \<and>
      (port_Name (svc_Ports service ! i) \<noteq> ''http'' \<and> port_Port (svc_Ports service ! i) \<noteq> 80 \<and>
       (port_Name (svc_Ports service ! i) = ''https'' \<or> port_Port (svc_Ports service ! i) = 443) \<longrightarrow>
         Type (PortMappings (fst (extractLoadBalancerParams service)) ! i) = ''https'') \<and>
      (port_Name (svc_Ports service ! i) \<noteq> ''http'' \<and> port_Port (svc_Ports service ! i) \<noteq> 80 \<and>
       port_Name (svc_Ports service ! i) \<noteq> ''https'' \<and> port_Port (svc_Ports service ! i) \<noteq> 443 \<longrightarrow>
         Type (PortMappings (fst (extractLoadBalancerParams service)) ! i) = ''tcp''))"
  by (simp add: extract_PortMappings portMapping_def)

lemma extract_no_error: "snd (extractLoadBalancerParams service) = None"
  by (simp add: extractLoadBalancerParams_def Let_def)

lemma extract_MaxBackends:
  "MaxBackends (fst (extractLoadBalancerParams service)) =
     (case svc_Annotations service ''cloud.tritoncompute/max_rs'' of
        None \<Rightarrow> 0
      | Some v \<Rightarrow> (case Atoi v of (n, None) \<Rightarrow> n | (n, Some e) \<Rightarrow> 0))"
  by (simp add: extractLoadBalancerParams_def Let_def split: option.splits prod.splits)

lemma extract_CertificateName:
  "CertificateName (fst (extractLoadBalancerParams service)) =
     (case svc_Annotations service ''cloud.tritoncompute/certificate_name'' of
        None \<Rightarrow> [] | Some v \<Rightarrow> v)"
  by (simp add: extractLoadBalancerParams_def Let_def split: option.splits prod.splits)

lemma FieldsFunc_no_empty: "filter (\<lambda>acl. acl \<noteq> []) (FieldsFunc s f) = FieldsFunc s f"
  by (simp add: FieldsFunc_def)

lemma extract_MetricsACL:
  "MetricsACL (fst (extractLoadBalancerParams service)) =
     (case svc_Annotations service ''cloud.tritoncompute/metrics_acl'' of
        None \<Rightarrow> []
      | Some v \<Rightarrow> FieldsFunc v (\<lambda>r. r = CHR '','' \<or> r = CHR '' ''))"
  by (simp add: extractLoadBalancerParams_def Let_def FieldsFunc_no_empty
      split: option.splits prod.splits)

text \<open>
  C5. \<^verbatim>\<open>extractLoadBalancerParams\<close> never returns an error: its error result is
  \<^verbatim>\<open>nil\<close> for every Service. A missing \<^verbatim>\<open>max_rs\<close> annotation, one that
  \<^verbatim>\<open>strconv.Atoi\<close> rejects, and in particular one that is not an integer, give
  \<open>MaxBackends = 0\<close>; a missing certificate annotation gives the empty certificate name
  and a missing ACL annotation the empty ACL.
\<close>

theorem extract_never_fails:
  "snd (extractLoadBalancerParams service) = None \<and>
   (svc_Annotations service ''cloud.tritoncompute/max_rs'' = None \<longrightarrow>
      MaxBackends (fst (extractLoadBalancerParams service)) = 0) \<and>
   (svc_Annotations service ''cloud.tritoncompute/max_rs'' = Some v \<and> snd (Atoi v) \<noteq> None \<longrightarrow>
      MaxBackends (fst (extractLoadBalancerParams service)) = 0) \<and>
   (svc_Annotations service ''cloud.tritoncompute/max_rs'' = Some v \<and> \<not> integer_text v \<longrightarrow>
      MaxBackends (fst (extractLoadBalancerParams service)) = 0) \<and>
   (svc_Annotations service ''cloud.tritoncompute/certificate_name'' = None \<longrightarrow>
      CertificateName (fst (extractLoadBalancerParams service)) = []) \<and>
   (svc_Annotations service ''cloud.tritoncompute/metrics_acl'' = None \<longrightarrow>
      MetricsACL (fst (extractLoadBalancerParams service)) = [])"
  by (auto simp: extract_no_error extract_MaxBackends extract_CertificateName extract_MetricsACL
      Atoi_not_integer split: prod.splits option.splits)

section \<open>The reconciler and the client on absent resources\<close>

text \<open>
  C9. When the Service that the request names is not of type LoadBalancer, \<^verbatim>\<open>Reconcile\<close>
  returns the empty result and no error, and the only call it has made is the read of the
  Service: no call to Triton, no status write.
\<close>

theorem non_loadbalancer_ignored:
  "KubeGet E L namespace name = Inr service \<Longrightarrow> svc_Type service \<noteq> ''LoadBalancer'' \<Longrightarrow>
   Reconcile E namespace name L =
     ((\<lparr>Requeue = False, RequeueAfter = 0\<rparr>, None), L @ [KubeGetCall namespace name])"
  by (simp add: Reconcile_def emptyResult_def)

text \<open>
  C10. When the listing by name and ownership tags returns no instance,
  \<^verbatim>\<open>UpdateLoadBalancer\<close> returns the error "load balancer <name> not found" and has made
  no call but the listing: no metadata is written.
\<close>

theorem update_absent_is_error:
  "ListInstances E L (listInput name) = Inr [] \<Longrightarrow>
   UpdateLoadBalancer E ctx name params L =
     (Some (Error (''load balancer '' @ name @ '' not found'')), L @ [ListCall (listInput name)])"
  by (simp add: UpdateLoadBalancer_def)

text \<open>
  C7 (as amended). When the listing by name and ownership tags returns no instance,
  \<^verbatim>\<open>DeleteLoadBalancer\<close> returns \<^verbatim>\<open>nil\<close> for every name that is not empty, and
  \<^verbatim>\<open>GetLoadBalancer\<close> returns \<^verbatim>\<open>(nil, nil)\<close> for every name; neither makes a call beyond
  the listing.
\<close>

theorem absent_is_success:
  "ListInstances E L (listInput name) = Inr [] \<Longrightarrow>
   (name \<noteq> [] \<longrightarrow>
      DeleteLoadBalancer E ctx name L = (None, L @ [ListCall (listInput name)])) \<and>
   GetLoadBalancer E ctx name L = (Inr None, L @ [ListCall (listInput name)])"
  by (simp add: DeleteLoadBalancer_def GetLoadBalancer_def)

lemma findPublicIP_find:
  "findPublicIP ips =
     (case List.find (\<lambda>ip. \<not> private_prefix ip) ips of None \<Rightarrow> [] | Some ip \<Rightarrow> ip)"
  by (induction ips) (auto simp: private_prefix_def)

lemma find_nonempty:
  "\<forall>ip \<in> set ips. ip \<noteq> [] \<Longrightarrow> List.find P ips = Some ip \<Longrightarrow> ip \<noteq> []"
  by (metis find_Some_iff nth_mem)

text \<open>
  The final block of \<^verbatim>\<open>reconcileNormal\<close> on an instance none of whose addresses is the
  empty string.
\<close>

lemma status_block:
  assumes "\<forall>ip \<in> set (ti_IPs i). ip \<noteq> []"
  shows "(ti_IPs i = [] \<longrightarrow> updateStatus E service (Some i) L = ((emptyResult, None), L)) \<and>
    (ti_IPs i \<noteq> [] \<longrightarrow>
       snd (updateStatus E service (Some i) L) =
         L @ [StatusUpdateCall (service\<lparr>svc_Ingress :=
                [\<lparr>IP = (case List.find (\<lambda>ip. \<not> private_prefix ip) (ti_IPs i) of
                           Some ip \<Rightarrow> ip
                         | None \<Rightarrow> ti_IPs i ! 0),
                  Hostname = []\<rparr>]\<rparr>)])"
proof (cases "ti_IPs i")
  case Nil
  then show ?thesis by (simp add: updateStatus_def)
next
  case (Cons a rest)
  with assms have a: "a \<noteq> []" by simp
  show ?thesis
  proof (cases "List.find (\<lambda>ip. \<not> private_prefix ip) (ti_IPs i)")
    case None
    with Cons a show ?thesis
      by (simp add: updateStatus_def findPublicIP_find Let_def split: option.splits)
  next
    case (Some ip)
    with assms have "ip \<noteq> []" using find_nonempty by blast
    with Some Cons show ?thesis
      by (simp add: updateStatus_def findPublicIP_find Let_def split: option.splits)
  qed
qed

lemma reconcileNormal_status:
  assumes "GetLoadBalancer E ctx (svc_Name service) L = (Inr existing, L1)"
    and "(case existing of
            None \<Rightarrow> CreateLoadBalancer E ctx (fst (extractLoadBalancerParams service)) L1
          | Some lb \<Rightarrow> UpdateLoadBalancer E ctx (svc_Name service)
                        (fst (extractLoadBalancerParams service)) L1) = (None, L2)"
    and "GetLoadBalancer E ctx (svc_Name service) L2 = (Inr loadBalancer, L3)"
    and "GetInstanceByName E ctx (svc_Name service) L3 = (Inr lbInstance, L4)"
  shows "reconcileNormal E ctx service L = updateStatus E service lbInstance L4"
proof -
  have "extractLoadBalancerParams service = (fst (extractLoadBalancerParams service), None)"
    using extract_no_error [of service] by (simp add: prod_eq_iff)
  then have "reconcileNormal E ctx service L =
      (case (fst (extractLoadBalancerParams service), None :: error option) of
        (lbParams, Some err) \<Rightarrow> ((emptyResult, Some err), L)
      | (lbParams, None) \<Rightarrow>
          (case GetLoadBalancer E ctx (svc_Name service) L of
             (Inl err, L1) \<Rightarrow> ((emptyResult, Some err), L1)
           | (Inr existingLB, L1) \<Rightarrow>
               (case (case existingLB of
                        None \<Rightarrow> CreateLoadBalancer E ctx lbParams L1
                      | Some lb \<Rightarrow> UpdateLoadBalancer E ctx (svc_Name service) lbParams L1) of
                  (Some err, L2) \<Rightarrow> ((emptyResult, Some err), L2)
                | (None, L2) \<Rightarrow>
                    (case GetLoadBalancer E ctx (svc_Name service) L2 of
                       (Inl err, L3) \<Rightarrow> ((emptyResult, Some err), L3)
                     | (Inr loadBalancer, L3) \<Rightarrow>
                         (case GetInstanceByName E ctx (svc_Name service) L3 of
                            (Inl err, L4) \<Rightarrow> ((emptyResult, Some err), L4)
                          | (Inr lbInstance, L4) \<Rightarrow> updateStatus E service lbInstance L4)))))"
    unfolding reconcileNormal_def by simp
  with assms show ?thesis
    by simp
qed

text \<open>
  C6 (as amended). Take a pass of \<^verbatim>\<open>reconcileNormal\<close> in which the create or the update
  succeeds, the second \<^verbatim>\<open>GetLoadBalancer\<close> succeeds and \<^verbatim>\<open>GetInstanceByName\<close> returns an
  instance none of whose addresses is the empty string. With no address at all the pass
  writes no status; otherwise it ends with exactly one status write, whose single ingress
  entry holds the first address without one of the prefixes \<^verbatim>\<open>10.\<close>, \<^verbatim>\<open>192.168.\<close>,
  \<^verbatim>\<open>172.\<close>, or the first address of the list when every address has one.
\<close>

theorem status_address:
  assumes "GetLoadBalancer E ctx (svc_Name service) L = (Inr existing, L1)"
    and "(case existing of
            None \<Rightarrow> CreateLoadBalancer E ctx (fst (extractLoadBalancerParams service)) L1
          | Some lb \<Rightarrow> UpdateLoadBalancer E ctx (svc_Name service)
                        (fst (extractLoadBalancerParams service)) L1) = (None, L2)"
    and "GetLoadBalancer E ctx (svc_Name service) L2 = (Inr loadBalancer, L3)"
    and "GetInstanceByName E ctx (svc_Name service) L3 = (Inr (Some i), L4)"
    and "\<forall>ip \<in> set (ti_IPs i). ip \<noteq> []"
  shows "(ti_IPs i = [] \<longrightarrow> snd (reconcileNormal E ctx service L) = L4) \<and>
    (ti_IPs i \<noteq> [] \<longrightarrow>
       snd (reconcileNormal E ctx service L) =
         L4 @ [StatusUpdateCall (service\<lparr>svc_Ingress :=
                 [\<lparr>IP = (case List.find (\<lambda>ip. \<not> private_prefix ip) (ti_IPs i) of
                            Some ip \<Rightarrow> ip
                          | None \<Rightarrow> ti_IPs i ! 0),
                   Hostname = []\<rparr>]\<rparr>)])"
  using reconcileNormal_status [OF assms(1-4)] status_block [OF assms(5), of E service L4]
  by simp

section \<open>The polling loops\<close>

lemma timeoutSeconds_default: "timeoutSeconds [] = 300"
  by (simp add: timeoutSeconds_def)

lemma timeoutSeconds_pos: "0 < sint (timeoutSeconds s)"
  by (simp add: timeoutSeconds_def split: prod.splits option.splits)

lemma maxIterations_eq:
  "0 < sint t \<Longrightarrow> maxIterations t = max 1 (nat (sint t) div 10)"
  by (auto simp: maxIterations_def Let_def signed_divide_int_def sgn_if max_def nat_div_distrib
      split: if_splits)

lemma concat_replicate_Suc: "concat (replicate (Suc k) xs) = xs @ concat (replicate k xs)"
  by simp

lemma provisionLoop_shape:
  "provisionLoop E ctx ident n L = (r, L') \<Longrightarrow>
   \<exists>k tail. k + length tail \<le> n \<and>
     L' = L @ concat (replicate k [GetCall ident, SleepCall 10]) @ tail \<and>
     (tail = [] \<or> tail = [GetCall ident]) \<and> (r = Exhausted \<longrightarrow> k = n \<and> tail = [])"
proof (induction n arbitrary: L)
  case 0
  then show ?case by auto
next
  case (Suc n)
  show ?case
  proof (cases "ctx L")
    case True
    with Suc.prems have "L' = L" "r \<noteq> Exhausted" by auto
    then show ?thesis by (intro exI [of _ 0] exI [of _ "[]"]) simp
  next
    case False
    note nctx = this
    show ?thesis
    proof (cases "GetInstance E L ident")
      case (Inl err)
      with nctx Suc.prems have "L' = L @ [GetCall ident]" "r \<noteq> Exhausted" by auto
      then show ?thesis by (intro exI [of _ 0] exI [of _ "[GetCall ident]"]) simp
    next
      case (Inr cur)
      show ?thesis
      proof (cases "inst_State cur = ''running''")
        case True
        with Inr nctx Suc.prems have "L' = L @ [GetCall ident]" "r \<noteq> Exhausted" by auto
        then show ?thesis by (intro exI [of _ 0] exI [of _ "[GetCall ident]"]) simp
      next
        case False
        with Inr nctx Suc.prems
        have "provisionLoop E ctx ident n (L @ [GetCall ident, SleepCall 10]) = (r, L')"
          by simp
        from Suc.IH [OF this] obtain k tail where
          k: "k + length tail \<le> n" and
          L': "L' = (L @ [GetCall ident, SleepCall 10]) @
                 concat (replicate k [GetCall ident, SleepCall 10]) @ tail" and
          tail: "tail = [] \<or> tail = [GetCall ident]" and
          ex: "r = Exhausted \<longrightarrow> k = n \<and> tail = []"
          by blast
        from k L' tail ex show ?thesis
          by (intro exI [of _ "Suc k"] exI [of _ tail]) simp
      qed
    qed
  qed
qed

lemma provisionLoop_success:
  "provisionLoop E ctx ident n L = (Return None, L') \<Longrightarrow>
   \<exists>L0 cur. GetInstance E L0 ident = Inr cur \<and> inst_State cur = ''running''"
proof (induction n arbitrary: L)
  case 0
  then show ?case by simp
next
  case (Suc n)
  then show ?case
    by (auto split: if_splits sum.splits)
qed

lemma provisionLoop_never_ready:
  assumes "\<forall>L. \<not> ctx L"
    and "\<forall>L. \<exists>cur. GetInstance E L ident = Inr cur \<and> inst_State cur \<noteq> ''running''"
  shows "provisionLoop E ctx ident n L =
    (Exhausted, L @ concat (replicate n [GetCall ident, SleepCall 10]))"
proof (induction n arbitrary: L)
  case 0
  then show ?case by simp
next
  case (Suc n)
  from assms(2) obtain cur where "GetInstance E L ident = Inr cur" "inst_State cur \<noteq> ''running''"
    by blast
  with assms(1) Suc.IH [of "L @ [GetCall ident, SleepCall 10]"] show ?case
    by simp
qed

lemma deleteLoop_shape:
  "deleteLoop E ctx input n L = (r, L') \<Longrightarrow>
   \<exists>k tail. k + length tail \<le> n \<and>
     L' = L @ concat (replicate k [ListCall input, SleepCall 10]) @ tail \<and>
     (tail = [] \<or> tail = [ListCall input]) \<and> (r = Exhausted \<longrightarrow> k = n \<and> tail = [])"
proof (induction n arbitrary: L)
  case 0
  then show ?case by auto
next
  case (Suc n)
  show ?case
  proof (cases "ctx L")
    case True
    with Suc.prems have "L' = L" "r \<noteq> Exhausted" by auto
    then show ?thesis by (intro exI [of _ 0] exI [of _ "[]"]) simp
  next
    case False
    note nctx = this
    show ?thesis
    proof (cases "ListInstances E L input")
      case (Inl err)
      with nctx Suc.prems have "L' = L @ [ListCall input]" "r \<noteq> Exhausted" by auto
      then show ?thesis by (intro exI [of _ 0] exI [of _ "[ListCall input]"]) simp
    next
      case (Inr instances)
      show ?thesis
      proof (cases "instances = []")
        case True
        with Inr nctx Suc.prems have "L' = L @ [ListCall input]" "r \<noteq> Exhausted" by auto
        then show ?thesis by (intro exI [of _ 0] exI [of _ "[ListCall input]"]) simp
      next
        case False
        with Inr nctx Suc.prems
        have "deleteLoop E ctx input n (L @ [ListCall input, SleepCall 10]) = (r, L')"
          by simp
        from Suc.IH [OF this] obtain k tail where
          k: "k + length tail \<le> n" and
          L': "L' = (L @ [ListCall input, SleepCall 10]) @
                 concat (replicate k [ListCall input, SleepCall 10]) @ tail" and
          tail: "tail = [] \<or> tail = [ListCall input]" and
          ex: "r = Exhausted \<longrightarrow> k = n \<and> tail = []"
          by blast
        from k L' tail ex show ?thesis
          by (intro exI [of _ "Suc k"] exI [of _ tail]) simp
      qed
    qed
  qed
qed

lemma deleteLoop_success:
  "deleteLoop E ctx input n L = (Return None, L') \<Longrightarrow> \<exists>L0. ListInstances E L0 input = Inr []"
proof (induction n arbitrary: L)
  case 0
  then show ?case by simp
next
  case (Suc n)
  then show ?case
    by (auto split: if_splits sum.splits)
qed

lemma deleteLoop_never_gone:
  assumes "\<forall>L. \<not> ctx L"
    and "\<forall>L. \<exists>instances. ListInstances E L input = Inr instances \<and> instances \<noteq> []"
  shows "deleteLoop E ctx input n L =
    (Exhausted, L @ concat (replicate n [ListCall input, SleepCall 10]))"
proof (induction n arbitrary: L)
  case 0
  then show ?case by simp
next
  case (Suc n)
  from assms(2) obtain instances where "ListInstances E L input = Inr instances" "instances \<noteq> []"
    by blast
  with assms(1) Suc.IH [of "L @ [ListCall input, SleepCall 10]"] show ?case
    by simp
qed

lemma HasPrefix_append: "HasPrefix (s @ b) s"
  by (simp add: HasPrefix_def)

lemma Contains_mid: "Contains (a @ s @ b) s"
proof (induction a)
  case Nil
  show ?case
  proof (cases "s @ b")
    case Nil
    then show ?thesis by (simp add: Contains_def)
  next
    case (Cons c cs)
    with HasPrefix_append [of s b] show ?thesis by (simp add: Contains_def)
  qed
next
  case (Cons c a)
  then show ?case by (simp add: Contains_def)
qed

lemma maxIterations_timeout:
  "maxIterations (timeoutSeconds s) = max 1 (nat (sint (timeoutSeconds s)) div 10)"
  by (rule maxIterations_eq) (rule timeoutSeconds_pos)

lemma create_shape:
  "CreateInstance E L (createInput E params) = Inr inst \<longrightarrow>
   (\<exists>k tail. k + length tail \<le> maxIterations (provisionTimeout E) \<and>
      snd (CreateLoadBalancer E ctx params L) =
        L @ [CreateCall (createInput E params)] @
        concat (replicate k [GetCall (inst_ID inst), SleepCall 10]) @ tail \<and>
      (tail = [] \<or> tail = [GetCall (inst_ID inst)]))"
proof
  assume c: "CreateInstance E L (createInput E params) = Inr inst"
  obtain r L' where loop: "provisionLoop E ctx (inst_ID inst) (maxIterations (provisionTimeout E))
      (L @ [CreateCall (createInput E params)]) = (r, L')"
    by (cases "provisionLoop E ctx (inst_ID inst) (maxIterations (provisionTimeout E))
      (L @ [CreateCall (createInput E params)])") blast
  from provisionLoop_shape [OF loop] obtain k tail where
    "k + length tail \<le> maxIterations (provisionTimeout E)"
    "L' = (L @ [CreateCall (createInput E params)]) @
       concat (replicate k [GetCall (inst_ID inst), SleepCall 10]) @ tail"
    "tail = [] \<or> tail = [GetCall (inst_ID inst)]"
    by blast
  moreover from c loop have "snd (CreateLoadBalancer E ctx params L) = L'"
    by (cases r) (simp_all add: CreateLoadBalancer_def Let_def)
  ultimately show "\<exists>k tail. k + length tail \<le> maxIterations (provisionTimeout E) \<and>
      snd (CreateLoadBalancer E ctx params L) =
        L @ [CreateCall (createInput E params)] @
        concat (replicate k [GetCall (inst_ID inst), SleepCall 10]) @ tail \<and>
      (tail = [] \<or> tail = [GetCall (inst_ID inst)])"
    by auto
qed

lemma create_no_silent_success:
  "fst (CreateLoadBalancer E ctx params L) = None \<longrightarrow>
   (\<exists>L0 ident cur. GetInstance E L0 ident = Inr cur \<and> inst_State cur = ''running'')"
proof
  assume ok: "fst (CreateLoadBalancer E ctx params L) = None"
  show "\<exists>L0 ident cur. GetInstance E L0 ident = Inr cur \<and> inst_State cur = ''running''"
  proof (cases "CreateInstance E L (createInput E params)")
    case (Inl err)
    with ok show ?thesis by (simp add: CreateLoadBalancer_def)
  next
    case (Inr inst)
    obtain r L' where loop: "provisionLoop E ctx (inst_ID inst)
        (maxIterations (provisionTimeout E)) (L @ [CreateCall (createInput E params)]) = (r, L')"
      by (cases "provisionLoop E ctx (inst_ID inst) (maxIterations (provisionTimeout E))
        (L @ [CreateCall (createInput E params)])") blast
    with ok Inr have "r = Return None"
      by (cases r) (simp_all add: CreateLoadBalancer_def Let_def)
    with loop provisionLoop_success show ?thesis by blast
  qed
qed

lemma create_timeout:
  "CreateInstance E L (createInput E params) = Inr inst \<and> (\<forall>L0. \<not> ctx L0) \<and>
   (\<forall>L0. \<exists>cur. GetInstance E L0 (inst_ID inst) = Inr cur \<and> inst_State cur \<noteq> ''running'') \<longrightarrow>
   CreateLoadBalancer E ctx params L =
     (Some (Error (''timed out waiting for load balancer to provision after '' @
                   Itoa (provisionTimeout E) @ '' seconds'')),
      L @ [CreateCall (createInput E params)] @
      concat (replicate (maxIterations (provisionTimeout E))
                [GetCall (inst_ID inst), SleepCall 10]))"
proof
  assume h: "CreateInstance E L (createInput E params) = Inr inst \<and> (\<forall>L0. \<not> ctx L0) \<and>
   (\<forall>L0. \<exists>cur. GetInstance E L0 (inst_ID inst) = Inr cur \<and> inst_State cur \<noteq> ''running'')"
  then have "provisionLoop E ctx (inst_ID inst) (maxIterations (provisionTimeout E))
      (L @ [CreateCall (createInput E params)]) =
      (Exhausted, (L @ [CreateCall (createInput E params)]) @
         concat (replicate (maxIterations (provisionTimeout E))
           [GetCall (inst_ID inst), SleepCall 10]))"
    using provisionLoop_never_ready [of ctx E "inst_ID inst"] by blast
  with h show "CreateLoadBalancer E ctx params L =
     (Some (Error (''timed out waiting for load balancer to provision after '' @
                   Itoa (provisionTimeout E) @ '' seconds'')),
      L @ [CreateCall (createInput E params)] @
      concat (replicate (maxIterations (provisionTimeout E))
                [GetCall (inst_ID inst), SleepCall 10]))"
    by (simp add: CreateLoadBalancer_def Let_def)
qed

lemma create_message_duration:
  "Contains (''timed out waiting for load balancer to provision after '' @ Itoa t @ '' seconds'')
     (Itoa t)"
  by (rule Contains_mid)

lemma delete_shape:
  "name \<noteq> [] \<and> ListInstances E L (listInput name) = Inr (first # others) \<and>
   DeleteInstance E (L @ [ListCall (listInput name)]) (inst_ID first) = None \<longrightarrow>
   (\<exists>k tail. k + length tail \<le> maxIterations (deleteTimeout E) \<and>
      snd (DeleteLoadBalancer E ctx name L) =
        L @ [ListCall (listInput name), DeleteCall (inst_ID first)] @
        concat (replicate k [ListCall (listInput name), SleepCall 10]) @ tail \<and>
      (tail = [] \<or> tail = [ListCall (listInput name)]))"
proof
  assume h: "name \<noteq> [] \<and> ListInstances E L (listInput name) = Inr (first # others) \<and>
   DeleteInstance E (L @ [ListCall (listInput name)]) (inst_ID first) = None"
  obtain r L' where loop: "deleteLoop E ctx (listInput name) (maxIterations (deleteTimeout E))
      (L @ [ListCall (listInput name)] @ [DeleteCall (inst_ID first)]) = (r, L')"
    by (cases "deleteLoop E ctx (listInput name) (maxIterations (deleteTimeout E))
      (L @ [ListCall (listInput name)] @ [DeleteCall (inst_ID first)])") blast
  from deleteLoop_shape [OF loop] obtain k tail where
    "k + length tail \<le> maxIterations (deleteTimeout E)"
    "L' = (L @ [ListCall (listInput name)] @ [DeleteCall (inst_ID first)]) @
       concat (replicate k [ListCall (listInput name), SleepCall 10]) @ tail"
    "tail = [] \<or> tail = [ListCall (listInput name)]"
    by blast
  moreover from h loop have "snd (DeleteLoadBalancer E ctx name L) = L'"
    by (cases r) (simp_all add: DeleteLoadBalancer_def Let_def)
  ultimately show "\<exists>k tail. k + length tail \<le> maxIterations (deleteTimeout E) \<and>
      snd (DeleteLoadBalancer E ctx name L) =
        L @ [ListCall (listInput name), DeleteCall (inst_ID first)] @
        concat (replicate k [ListCall (listInput name), SleepCall 10]) @ tail \<and>
      (tail = [] \<or> tail = [ListCall (listInput name)])"
    by auto
qed

lemma delete_no_silent_success:
  "fst (DeleteLoadBalancer E ctx name L) = None \<longrightarrow>
   (\<exists>L0. ListInstances E L0 (listInput name) = Inr [])"
proof
  assume ok: "fst (DeleteLoadBalancer E ctx name L) = None"
  then have name: "name \<noteq> []"
    by (auto simp: DeleteLoadBalancer_def)
  show "\<exists>L0. ListInstances E L0 (listInput name) = Inr []"
  proof (cases "ListInstances E L (listInput name)")
    case (Inl err)
    with ok name show ?thesis by (simp add: DeleteLoadBalancer_def)
  next
    case (Inr instances)
    show ?thesis
    proof (cases instances)
      case Nil
      with Inr show ?thesis by blast
    next
      case (Cons first others)
      show ?thesis
      proof (cases "DeleteInstance E (L @ [ListCall (listInput name)]) (inst_ID first)")
        case (Some err)
        with ok name Inr Cons show ?thesis by (simp add: DeleteLoadBalancer_def Let_def)
      next
        case None
        obtain r L' where loop: "deleteLoop E ctx (listInput name)
            (maxIterations (deleteTimeout E))
            (L @ [ListCall (listInput name)] @ [DeleteCall (inst_ID first)]) = (r, L')"
          by (cases "deleteLoop E ctx (listInput name) (maxIterations (deleteTimeout E))
            (L @ [ListCall (listInput name)] @ [DeleteCall (inst_ID first)])") blast
        with ok name Inr Cons None have "r = Return None"
          by (cases r) (simp_all add: DeleteLoadBalancer_def Let_def)
        with loop deleteLoop_success show ?thesis by blast
      qed
    qed
  qed
qed

lemma delete_timeout:
  "name \<noteq> [] \<and> ListInstances E L (listInput name) = Inr (first # others) \<and>
   DeleteInstance E (L @ [ListCall (listInput name)]) (inst_ID first) = None \<and>
   (\<forall>L0. \<not> ctx L0) \<and>
   (\<forall>L0. \<exists>instances. ListInstances E L0 (listInput name) = Inr instances \<and> instances \<noteq> []) \<longrightarrow>
   DeleteLoadBalancer E ctx name L =
     (Some (Error (''timed out waiting for load balancer '' @ name @ '' to be deleted after '' @
                   Itoa (deleteTimeout E) @ '' seconds'')),
      L @ [ListCall (listInput name), DeleteCall (inst_ID first)] @
      concat (replicate (maxIterations (deleteTimeout E))
                [ListCall (listInput name), SleepCall 10]))"
proof
  assume h: "name \<noteq> [] \<and> ListInstances E L (listInput name) = Inr (first # others) \<and>
   DeleteInstance E (L @ [ListCall (listInput name)]) (inst_ID first) = None \<and>
   (\<forall>L0. \<not> ctx L0) \<and>
   (\<forall>L0. \<exists>instances. ListInstances E L0 (listInput name) = Inr instances \<and> instances \<noteq> [])"
  then have "deleteLoop E ctx (listInput name) (maxIterations (deleteTimeout E))
      (L @ [ListCall (listInput name)] @ [DeleteCall (inst_ID first)]) =
      (Exhausted, (L @ [ListCall (listInput name)] @ [DeleteCall (inst_ID first)]) @
         concat (replicate (maxIterations (deleteTimeout E))
           [ListCall (listInput name), SleepCall 10]))"
    using deleteLoop_never_gone [of ctx E "listInput name"] by blast
  with h show "DeleteLoadBalancer E ctx name L =
     (Some (Error (''timed out waiting for load balancer '' @ name @ '' to be deleted after '' @
                   Itoa (deleteTimeout E) @ '' seconds'')),
      L @ [ListCall (listInput name), DeleteCall (inst_ID first)] @
      concat (replicate (maxIterations (deleteTimeout E))
                [ListCall (listInput name), SleepCall 10]))"
    by (simp add: DeleteLoadBalancer_def Let_def)
qed

lemma delete_message_name:
  "Contains (''timed out waiting for load balancer '' @ name @ '' to be deleted after '' @
             Itoa t @ '' seconds'') name"
  by (rule Contains_mid)

lemma delete_message_duration:
  "Contains (''timed out waiting for load balancer '' @ name @ '' to be deleted after '' @
             Itoa t @ '' seconds'') (Itoa t)"
  using Contains_mid [of "''timed out waiting for load balancer '' @ name @ '' to be deleted after ''"
      "Itoa t" "'' seconds''"]
  by simp

text \<open>The equations that run the client and the reconciler on concrete scenarios.\<close>

lemmas run_defs = Reconcile_def reconcileNormal_def reconcileDelete_def
  extractLoadBalancerParams_def portMapping_def GetLoadBalancer_def GetInstanceByName_def
  CreateLoadBalancer_def DeleteLoadBalancer_def UpdateLoadBalancer_def updateStatus_def
  paramsOfMetadata_def timeoutSeconds_def maxIterations_def signed_divide_int_def
  empty_cloud_def stuck_cloud_def lb_instance_def test_service_def Background_def
  emptyResult_def private_prefix_def HasPrefix_def Contains_def Itoa_def digit_char_def
  digits10.simps Atoi_def is_digit_def digit_val_def integer_text_def Let_def

text \<open>
  C8 (as amended). The timeout is 300 seconds unless the environment gives a positive
  integer, and the loops run at most \<open>max 1 (timeout div 10)\<close> iterations. Whatever the
  outside answers, the calls of a create are the create request followed by at most that
  many polls, each followed by a sleep of 10 seconds except the last one when it ends the
  wait; a create that returns no error has seen the state \<^verbatim>\<open>running\<close>; and when the
  context is never done and no poll sees \<^verbatim>\<open>running\<close>, create makes exactly that many polls
  and returns the error "timed out ... after <timeout> seconds", which carries the timeout.
  The same holds for delete, with the listing as the poll and an empty listing as success;
  its error carries the name and the timeout.
\<close>

theorem polling_bounds:
  "timeoutSeconds [] = 300 \<and>
   maxIterations (timeoutSeconds s) = max 1 (nat (sint (timeoutSeconds s)) div 10) \<and>
   (CreateInstance E L (createInput E params) = Inr inst \<longrightarrow>
     (\<exists>k tail. k + length tail \<le> maxIterations (provisionTimeout E) \<and>
        snd (CreateLoadBalancer E ctx params L) =
          L @ [CreateCall (createInput E params)] @
          concat (replicate k [GetCall (inst_ID inst), SleepCall 10]) @ tail \<and>
        (tail = [] \<or> tail = [GetCall (inst_ID inst)]))) \<and>
   (fst (CreateLoadBalancer E' ctx' params' L') = None \<longrightarrow>
     (\<exists>L0 ident cur. GetInstance E' L0 ident = Inr cur \<and> inst_State cur = ''running'')) \<and>
   (CreateInstance E L (createInput E params) = Inr inst \<and> (\<forall>L0. \<not> ctx L0) \<and>
    (\<forall>L0. \<exists>cur. GetInstance E L0 (inst_ID inst) = Inr cur \<and> inst_State cur \<noteq> ''running'') \<longrightarrow>
     CreateLoadBalancer E ctx params L =
       (Some (Error (''timed out waiting for load balancer to provision after '' @
                     Itoa (provisionTimeout E) @ '' seconds'')),
        L @ [CreateCall (createInput E params)] @
        concat (replicate (maxIterations (provisionTimeout E))
                  [GetCall (inst_ID inst), SleepCall 10]))) \<and>
   Contains (''timed out waiting for load balancer to provision after '' @ Itoa t @ '' seconds'')
     (Itoa t) \<and>
   (name \<noteq> [] \<and> ListInstances D M (listInput name) = Inr (first # others) \<and>
    DeleteInstance D (M @ [ListCall (listInput name)]) (inst_ID first) = None \<longrightarrow>
     (\<exists>k tail. k + length tail \<le> maxIterations (deleteTimeout D) \<and>
        snd (DeleteLoadBalancer D dctx name M) =
          M @ [ListCall (listInput name), DeleteCall (inst_ID first)] @
          concat (replicate k [ListCall (listInput name), SleepCall 10]) @ tail \<and>
        (tail = [] \<or> tail = [ListCall (listInput name)]))) \<and>
   (fst (DeleteLoadBalancer D' dctx' name' M') = None \<longrightarrow>
     (\<exists>L0. ListInstances D' L0 (listInput name') = Inr [])) \<and>
   (name \<noteq> [] \<and> ListInstances D M (listInput name) = Inr (first # others) \<and>
    DeleteInstance D (M @ [ListCall (listInput name)]) (inst_ID first) = None \<and>
    (\<forall>L0. \<not> dctx L0) \<and>
    (\<forall>L0. \<exists>instances. ListInstances D L0 (listInput name) = Inr instances \<and> instances \<noteq> []) \<longrightarrow>
     DeleteLoadBalancer D dctx name M =
       (Some (Error (''timed out waiting for load balancer '' @ name @
                     '' to be deleted after '' @ Itoa (deleteTimeout D) @ '' seconds'')),
        M @ [ListCall (listInput name), DeleteCall (inst_ID first)] @
        concat (replicate (maxIterations (deleteTimeout D))
                  [ListCall (listInput name), SleepCall 10]))) \<and>
   Contains (''timed out waiting for load balancer '' @ name @ '' to be deleted after '' @
             Itoa t @ '' seconds'') name \<and>
   Contains (''timed out waiting for load balancer '' @ name @ '' to be deleted after '' @
             Itoa t @ '' seconds'') (Itoa t)"
  apply (intro conjI)
            apply (rule timeoutSeconds_default)
           apply (rule maxIterations_timeout)
          apply (rule create_shape)
         apply (rule create_no_silent_success)
        apply (rule create_timeout)
       apply (rule create_message_duration)
      apply (rule delete_shape)
     apply (rule delete_no_silent_success)
    apply (rule delete_timeout)
   apply (rule delete_message_name)
  apply (rule delete_message_duration)
  done

text \<open>
  C1. The scenario of \<^verbatim>\<open>TestReconcileTransientError\<close>: no load balancer exists and the
  create call fails with "connection timeout". \<^verbatim>\<open>Reconcile\<close> returns that error and the
  empty result: no requeue is asked for.
\<close>

theorem transient_create_error_returned:
  "fst (Reconcile empty_cloud ''default'' ''test-service'' []) =
     (\<lparr>Requeue = False, RequeueAfter = 0\<rparr>, Some (Error ''connection timeout''))"
  by (simp add: run_defs)

text \<open>
  With a timeout of 5 seconds the create loop still polls once and sleeps 10 seconds, and
  the error of a create that runs out of polls does not carry the name.
\<close>

theorem polling_bounds_counterexample:
  "CreateLoadBalancer (stuck_cloud ''provisioning'' [] ''5'') Background
     (fst (extractLoadBalancerParams test_service)) [] =
     (Some (Error ''timed out waiting for load balancer to provision after 5 seconds''),
      [CreateCall (createInput (stuck_cloud ''provisioning'' [] ''5'')
                     (fst (extractLoadBalancerParams test_service))),
       GetCall ''lb-1'', SleepCall 10]) \<and>
   Name (fst (extractLoadBalancerParams test_service)) = ''test-service'' \<and>
   \<not> Contains ''timed out waiting for load balancer to provision after 5 seconds''
        ''test-service''"
  by (simp add: run_defs)

section \<open>Examples\<close>

theorem port_classification_witness:
  "port_Port (svc_Ports four_ports ! 0) = 80 \<and>
   Type (PortMappings (fst (extractLoadBalancerParams four_ports)) ! 0) = ''http'' \<and>
   port_Name (svc_Ports four_ports ! 1) = ''http'' \<and>
   Type (PortMappings (fst (extractLoadBalancerParams four_ports)) ! 1) = ''http'' \<and>
   port_Name (svc_Ports four_ports ! 2) \<noteq> ''http'' \<and> port_Port (svc_Ports four_ports ! 2) \<noteq> 80 \<and>
   port_Name (svc_Ports four_ports ! 2) = ''https'' \<and>
   Type (PortMappings (fst (extractLoadBalancerParams four_ports)) ! 2) = ''https'' \<and>
   port_Name (svc_Ports four_ports ! 3) \<noteq> ''http'' \<and> port_Port (svc_Ports four_ports ! 3) \<noteq> 80 \<and>
   port_Name (svc_Ports four_ports ! 3) \<noteq> ''https'' \<and>
   port_Port (svc_Ports four_ports ! 3) \<noteq> 443 \<and>
   Type (PortMappings (fst (extractLoadBalancerParams four_ports)) ! 3) = ''tcp''"
proof -
  have len: "length (svc_Ports four_ports) = 4"
    by (simp add: four_ports_def test_service_def)
  have p0: "port_Port (svc_Ports four_ports ! 0) = 80"
    and p1: "port_Name (svc_Ports four_ports ! 1) = ''http''"
    and p2: "port_Name (svc_Ports four_ports ! 2) \<noteq> ''http'' \<and>
      port_Port (svc_Ports four_ports ! 2) \<noteq> 80 \<and>
      port_Name (svc_Ports four_ports ! 2) = ''https''"
    and p3: "port_Name (svc_Ports four_ports ! 3) \<noteq> ''http'' \<and>
      port_Port (svc_Ports four_ports ! 3) \<noteq> 80 \<and>
      port_Name (svc_Ports four_ports ! 3) \<noteq> ''https'' \<and>
      port_Port (svc_Ports four_ports ! 3) \<noteq> 443"
    by (simp_all add: four_ports_def test_service_def)
  note c = port_classification [of four_ports, THEN conjunct2, rule_format]
  from len p0 have "Type (PortMappings (fst (extractLoadBalancerParams four_ports)) ! 0) = ''http''"
    using c [of 0, THEN conjunct1] by simp
  moreover from len p1
  have "Type (PortMappings (fst (extractLoadBalancerParams four_ports)) ! 1) = ''http''"
    using c [of 1, THEN conjunct1] by simp
  moreover from len p2
  have "Type (PortMappings (fst (extractLoadBalancerParams four_ports)) ! 2) = ''https''"
    using c [of 2, THEN conjunct2, THEN conjunct1] by simp
  moreover from len p3
  have "Type (PortMappings (fst (extractLoadBalancerParams four_ports)) ! 3) = ''tcp''"
    using c [of 3, THEN conjunct2, THEN conjunct2] by simp
  ultimately show ?thesis
    using p0 p1 p2 p3 by simp
qed

text \<open>
  A port named \<^verbatim>\<open>https\<close> with number 80 is classified \<^verbatim>\<open>http\<close>: the first rule wins.
\<close>

theorem port_classification_counterexample:
  "port_Name (svc_Ports https_on_80 ! 0) = ''https'' \<and>
   Type (PortMappings (fst (extractLoadBalancerParams https_on_80)) ! 0) = ''http'' \<and>
   Type (PortMappings (fst (extractLoadBalancerParams https_on_80)) ! 0) \<noteq> ''https''"
  by (simp add: https_on_80_def run_defs)

theorem extract_never_fails_witness:
  "svc_Annotations test_service ''cloud.tritoncompute/max_rs'' = None \<and>
   svc_Annotations test_service ''cloud.tritoncompute/certificate_name'' = None \<and>
   svc_Annotations test_service ''cloud.tritoncompute/metrics_acl'' = None \<and>
   snd (extractLoadBalancerParams test_service) = None \<and>
   MaxBackends (fst (extractLoadBalancerParams test_service)) = 0 \<and>
   CertificateName (fst (extractLoadBalancerParams test_service)) = [] \<and>
   MetricsACL (fst (extractLoadBalancerParams test_service)) = [] \<and>
   svc_Annotations invalid_max_rs ''cloud.tritoncompute/max_rs'' = Some ''invalid'' \<and>
   snd (Atoi ''invalid'') \<noteq> None \<and> \<not> integer_text ''invalid'' \<and>
   snd (extractLoadBalancerParams invalid_max_rs) = None \<and>
   MaxBackends (fst (extractLoadBalancerParams invalid_max_rs)) = 0"
proof -
  have h1: "svc_Annotations test_service ''cloud.tritoncompute/max_rs'' = None \<and>
      svc_Annotations test_service ''cloud.tritoncompute/certificate_name'' = None \<and>
      svc_Annotations test_service ''cloud.tritoncompute/metrics_acl'' = None"
    by (simp add: test_service_def)
  have h2: "svc_Annotations invalid_max_rs ''cloud.tritoncompute/max_rs'' = Some ''invalid'' \<and>
      snd (Atoi ''invalid'') \<noteq> None \<and> \<not> integer_text ''invalid''"
    by (simp add: invalid_max_rs_def test_service_def eval_defs)
  from h1 h2 show ?thesis
    using extract_never_fails [of test_service "[]"]
      extract_never_fails [of invalid_max_rs "''invalid''"]
    by blast
qed

theorem non_loadbalancer_ignored_witness:
  "KubeGet cluster_ip_api [] ''default'' ''test-service'' =
     Inr (test_service\<lparr>svc_Type := ''ClusterIP''\<rparr>) \<and>
   svc_Type (test_service\<lparr>svc_Type := ''ClusterIP''\<rparr>) \<noteq> ''LoadBalancer'' \<and>
   Reconcile cluster_ip_api ''default'' ''test-service'' [] =
     ((\<lparr>Requeue = False, RequeueAfter = 0\<rparr>, None), [KubeGetCall ''default'' ''test-service''])"
proof -
  have h1: "KubeGet cluster_ip_api [] ''default'' ''test-service'' =
     Inr (test_service\<lparr>svc_Type := ''ClusterIP''\<rparr>)"
    by (simp add: cluster_ip_api_def empty_cloud_def)
  have h2: "svc_Type (test_service\<lparr>svc_Type := ''ClusterIP''\<rparr>) \<noteq> ''LoadBalancer''"
    by simp
  from h1 h2 non_loadbalancer_ignored [OF h1 h2] show ?thesis
    by simp
qed

theorem update_absent_is_error_witness:
  "ListInstances empty_cloud [] (listInput ''test-service'') = Inr [] \<and>
   UpdateLoadBalancer empty_cloud Background ''test-service''
     (fst (extractLoadBalancerParams test_service)) [] =
     (Some (Error ''load balancer test-service not found''),
      [ListCall (listInput ''test-service'')])"
proof -
  have h: "ListInstances empty_cloud [] (listInput ''test-service'') = Inr []"
    by (simp add: empty_cloud_def)
  from h update_absent_is_error [OF h, of Background "fst (extractLoadBalancerParams test_service)"]
  show ?thesis
    by simp
qed

theorem absent_is_success_witness:
  "ListInstances empty_cloud [] (listInput ''test-service'') = Inr [] \<and>
   ''test-service'' \<noteq> [] \<and>
   DeleteLoadBalancer empty_cloud Background ''test-service'' [] =
     (None, [ListCall (listInput ''test-service'')]) \<and>
   GetLoadBalancer empty_cloud Background ''test-service'' [] =
     (Inr None, [ListCall (listInput ''test-service'')])"
proof -
  have h: "ListInstances empty_cloud [] (listInput ''test-service'') = Inr []"
    by (simp add: empty_cloud_def)
  from h absent_is_success [OF h, of Background] show ?thesis
    by simp
qed

text \<open>
  For the empty name \<^verbatim>\<open>DeleteLoadBalancer\<close> returns an error, before any listing.
\<close>

theorem absent_is_success_counterexample:
  "ListInstances empty_cloud [] (listInput []) = Inr [] \<and>
   DeleteLoadBalancer empty_cloud Background [] [] =
     (Some (Error ''load balancer name cannot be empty''), [])"
  by (simp add: empty_cloud_def DeleteLoadBalancer_def)

theorem status_address_witness:
  "GetLoadBalancer (stuck_cloud ''running'' [''203.0.113.1'', ''10.0.0.1''] []) Background
     (svc_Name test_service) [] =
     (Inr (Some (paramsOfMetadata ''test-service'' Map.empty)),
      [ListCall (listInput ''test-service''), GetCall ''lb-1'']) \<and>
   UpdateLoadBalancer (stuck_cloud ''running'' [''203.0.113.1'', ''10.0.0.1''] []) Background
     (svc_Name test_service) (fst (extractLoadBalancerParams test_service))
     [ListCall (listInput ''test-service''), GetCall ''lb-1''] =
     (None, [ListCall (listInput ''test-service''), GetCall ''lb-1'',
             ListCall (listInput ''test-service''),
             UpdateMetadataCall ''lb-1''
               (buildMetadata (fst (extractLoadBalancerParams test_service)))]) \<and>
   GetLoadBalancer (stuck_cloud ''running'' [''203.0.113.1'', ''10.0.0.1''] []) Background
     (svc_Name test_service)
     [ListCall (listInput ''test-service''), GetCall ''lb-1'',
      ListCall (listInput ''test-service''),
      UpdateMetadataCall ''lb-1'' (buildMetadata (fst (extractLoadBalancerParams test_service)))] =
     (Inr (Some (paramsOfMetadata ''test-service'' Map.empty)),
      [ListCall (listInput ''test-service''), GetCall ''lb-1'',
       ListCall (listInput ''test-service''),
       UpdateMetadataCall ''lb-1'' (buildMetadata (fst (extractLoadBalancerParams test_service))),
       ListCall (listInput ''test-service''), GetCall ''lb-1'']) \<and>
   GetInstanceByName (stuck_cloud ''running'' [''203.0.113.1'', ''10.0.0.1''] []) Background
     (svc_Name test_service)
     [ListCall (listInput ''test-service''), GetCall ''lb-1'',
      ListCall (listInput ''test-service''),
      UpdateMetadataCall ''lb-1'' (buildMetadata (fst (extractLoadBalancerParams test_service))),
      ListCall (listInput ''test-service''), GetCall ''lb-1''] =
     (Inr (Some (addresses [''203.0.113.1'', ''10.0.0.1''])),
      [ListCall (listInput ''test-service''), GetCall ''lb-1'',
       ListCall (listInput ''test-service''),
       UpdateMetadataCall ''lb-1'' (buildMetadata (fst (extractLoadBalancerParams test_service))),
       ListCall (listInput ''test-service''), GetCall ''lb-1'',
       ListCall (listInput ''test-service''), GetCall ''lb-1'']) \<and>
   ''203.0.113.1'' \<noteq> [] \<and> ''10.0.0.1'' \<noteq> [] \<and>
   snd (reconcileNormal (stuck_cloud ''running'' [''203.0.113.1'', ''10.0.0.1''] []) Background
          test_service []) =
     [ListCall (listInput ''test-service''), GetCall ''lb-1'',
      ListCall (listInput ''test-service''),
      UpdateMetadataCall ''lb-1'' (buildMetadata (fst (extractLoadBalancerParams test_service))),
      ListCall (listInput ''test-service''), GetCall ''lb-1'',
      ListCall (listInput ''test-service''), GetCall ''lb-1'',
      StatusUpdateCall (test_service\<lparr>svc_Ingress :=
        [\<lparr>IP = ''203.0.113.1'', Hostname = []\<rparr>]\<rparr>)]"
proof -
  let ?E = "stuck_cloud ''running'' [''203.0.113.1'', ''10.0.0.1''] []"
  let ?P = "fst (extractLoadBalancerParams test_service)"
  let ?L1 = "[ListCall (listInput ''test-service''), GetCall ''lb-1'']"
  let ?L2 = "[ListCall (listInput ''test-service''), GetCall ''lb-1'',
      ListCall (listInput ''test-service''), UpdateMetadataCall ''lb-1'' (buildMetadata ?P)]"
  let ?L3 = "[ListCall (listInput ''test-service''), GetCall ''lb-1'',
      ListCall (listInput ''test-service''), UpdateMetadataCall ''lb-1'' (buildMetadata ?P),
      ListCall (listInput ''test-service''), GetCall ''lb-1'']"
  let ?L4 = "[ListCall (listInput ''test-service''), GetCall ''lb-1'',
      ListCall (listInput ''test-service''), UpdateMetadataCall ''lb-1'' (buildMetadata ?P),
      ListCall (listInput ''test-service''), GetCall ''lb-1'',
      ListCall (listInput ''test-service''), GetCall ''lb-1'']"
  have g1: "GetLoadBalancer ?E Background (svc_Name test_service) [] =
      (Inr (Some (paramsOfMetadata ''test-service'' Map.empty)), ?L1)"
    by (simp add: GetLoadBalancer_def stuck_cloud_def lb_instance_def test_service_def Let_def)
  have u: "UpdateLoadBalancer ?E Background (svc_Name test_service) ?P ?L1 = (None, ?L2)"
    by (simp add: UpdateLoadBalancer_def stuck_cloud_def lb_instance_def test_service_def Let_def)
  then have u': "(case Some (paramsOfMetadata ''test-service'' Map.empty) of
        None \<Rightarrow> CreateLoadBalancer ?E Background ?P ?L1
      | Some lb \<Rightarrow> UpdateLoadBalancer ?E Background (svc_Name test_service) ?P ?L1) = (None, ?L2)"
    by simp
  have g2: "GetLoadBalancer ?E Background (svc_Name test_service) ?L2 =
      (Inr (Some (paramsOfMetadata ''test-service'' Map.empty)), ?L3)"
    by (simp add: GetLoadBalancer_def stuck_cloud_def lb_instance_def test_service_def Let_def)
  have gi: "GetInstanceByName ?E Background (svc_Name test_service) ?L3 =
      (Inr (Some (addresses [''203.0.113.1'', ''10.0.0.1''])), ?L4)"
    by (simp add: GetInstanceByName_def stuck_cloud_def lb_instance_def test_service_def
        addresses_def Let_def)
  have ne: "\<forall>ip \<in> set (ti_IPs (addresses [''203.0.113.1'', ''10.0.0.1''])). ip \<noteq> []"
    by (simp add: addresses_def)
  have "snd (reconcileNormal ?E Background test_service []) =
      ?L4 @ [StatusUpdateCall (test_service\<lparr>svc_Ingress :=
        [\<lparr>IP = ''203.0.113.1'', Hostname = []\<rparr>]\<rparr>)]"
    using status_address [OF g1 u' g2 gi ne]
    by (simp add: addresses_def private_prefix_def HasPrefix_def)
  with g1 u g2 gi show ?thesis
    by simp
qed

text \<open>
  An empty string among the addresses: it is the first address without a private prefix,
  yet the pass writes the private address before it; and when it is the only address, the
  pass writes no status.
\<close>

theorem status_address_counterexample:
  "List.find (\<lambda>ip. \<not> private_prefix ip) [''10.0.0.1'', ''''] = Some '''' \<and>
   snd (reconcileNormal (stuck_cloud ''running'' [''10.0.0.1'', ''''] []) Background
          test_service []) =
     [ListCall (listInput ''test-service''), GetCall ''lb-1'',
      ListCall (listInput ''test-service''),
      UpdateMetadataCall ''lb-1'' (buildMetadata (fst (extractLoadBalancerParams test_service))),
      ListCall (listInput ''test-service''), GetCall ''lb-1'',
      ListCall (listInput ''test-service''), GetCall ''lb-1'',
      StatusUpdateCall (test_service\<lparr>svc_Ingress := [\<lparr>IP = ''10.0.0.1'', Hostname = []\<rparr>]\<rparr>)] \<and>
   List.find (\<lambda>ip. \<not> private_prefix ip) [''''] = Some '''' \<and>
   snd (reconcileNormal (stuck_cloud ''running'' [''''] []) Background test_service []) =
     [ListCall (listInput ''test-service''), GetCall ''lb-1'',
      ListCall (listInput ''test-service''),
      UpdateMetadataCall ''lb-1'' (buildMetadata (fst (extractLoadBalancerParams test_service))),
      ListCall (listInput ''test-service''), GetCall ''lb-1'',
      ListCall (listInput ''test-service''), GetCall ''lb-1'']"
  by (simp add: run_defs)

text \<open>
  A whole reconcile pass over an existing load balancer with the addresses of the
  specification's example: the update, the two reads and the status write.
\<close>

lemma reconcile_writes_public_address:
  "snd (Reconcile (stuck_cloud ''running'' [''203.0.113.1'', ''10.0.0.1''] []) ''default''
          ''test-service'' []) =
     [KubeGetCall ''default'' ''test-service'',
      ListCall (listInput ''test-service''), GetCall ''lb-1'',
      ListCall (listInput ''test-service''),
      UpdateMetadataCall ''lb-1'' (buildMetadata (fst (extractLoadBalancerParams test_service))),
      ListCall (listInput ''test-service''), GetCall ''lb-1'',
      ListCall (listInput ''test-service''), GetCall ''lb-1'',
      StatusUpdateCall (test_service\<lparr>svc_Ingress :=
        [\<lparr>IP = ''203.0.113.1'', Hostname = []\<rparr>]\<rparr>)]"
  by (simp add: run_defs)

lemma maxIterations_pos: "0 < maxIterations t"
  by (simp add: maxIterations_def Let_def)

lemma provisionLoop_first_running:
  "0 < n \<Longrightarrow> \<not> ctx L \<Longrightarrow> GetInstance E L ident = Inr cur \<Longrightarrow> inst_State cur = ''running'' \<Longrightarrow>
   provisionLoop E ctx ident n L = (Return None, L @ [GetCall ident])"
  by (cases n) simp_all

theorem polling_bounds_witness:
  "CreateInstance (stuck_cloud ''provisioning'' [] [])  []
     (createInput (stuck_cloud ''provisioning'' [] []) (fst (extractLoadBalancerParams test_service))) =
     Inr (lb_instance ''provisioning'' []) \<and>
   (\<forall>L0. \<not> Background L0) \<and>
   (\<forall>L0. \<exists>cur. GetInstance (stuck_cloud ''provisioning'' [] []) L0
              (inst_ID (lb_instance ''provisioning'' [])) = Inr cur \<and>
            inst_State cur \<noteq> ''running'') \<and>
   CreateLoadBalancer (stuck_cloud ''provisioning'' [] []) Background
     (fst (extractLoadBalancerParams test_service)) [] =
     (Some (Error ''timed out waiting for load balancer to provision after 300 seconds''),
      [CreateCall (createInput (stuck_cloud ''provisioning'' [] [])
                     (fst (extractLoadBalancerParams test_service)))] @
      concat (replicate 30 [GetCall ''lb-1'', SleepCall 10])) \<and>
   fst (CreateLoadBalancer (stuck_cloud ''running'' [] []) Background
          (fst (extractLoadBalancerParams test_service)) []) = None \<and>
   (\<exists>L0 ident cur. GetInstance (stuck_cloud ''running'' [] []) L0 ident = Inr cur \<and>
      inst_State cur = ''running'') \<and>
   ''test-service'' \<noteq> [] \<and>
   ListInstances (stuck_cloud ''running'' [] []) [] (listInput ''test-service'') =
     Inr [lb_instance ''running'' []] \<and>
   DeleteInstance (stuck_cloud ''running'' [] []) ([] @ [ListCall (listInput ''test-service'')])
     (inst_ID (lb_instance ''running'' [])) = None \<and>
   (\<forall>L0. \<exists>instances. ListInstances (stuck_cloud ''running'' [] []) L0
              (listInput ''test-service'') = Inr instances \<and> instances \<noteq> []) \<and>
   DeleteLoadBalancer (stuck_cloud ''running'' [] []) Background ''test-service'' [] =
     (Some (Error
        ''timed out waiting for load balancer test-service to be deleted after 300 seconds''),
      [ListCall (listInput ''test-service''), DeleteCall ''lb-1''] @
      concat (replicate 30 [ListCall (listInput ''test-service''), SleepCall 10])) \<and>
   fst (DeleteLoadBalancer empty_cloud Background ''test-service'' []) = None \<and>
   (\<exists>L0. ListInstances empty_cloud L0 (listInput ''test-service'') = Inr [])"
proof -
  let ?P = "fst (extractLoadBalancerParams test_service)"
  let ?Ec = "stuck_cloud ''provisioning'' [] []"
  let ?Er = "stuck_cloud ''running'' [] []"
  have h1: "CreateInstance ?Ec [] (createInput ?Ec ?P) = Inr (lb_instance ''provisioning'' [])"
    by (simp add: stuck_cloud_def)
  have h2: "\<forall>L0. \<not> Background L0"
    by (simp add: Background_def)
  have h3: "\<forall>L0. \<exists>cur. GetInstance ?Ec L0 (inst_ID (lb_instance ''provisioning'' [])) = Inr cur \<and>
      inst_State cur \<noteq> ''running''"
    by (simp add: stuck_cloud_def lb_instance_def)
  have h4: "fst (CreateLoadBalancer ?Er Background ?P []) = None"
    using provisionLoop_first_running [of "maxIterations (provisionTimeout ?Er)" Background
        "[CreateCall (createInput ?Er ?P)]" ?Er "''lb-1''" "lb_instance ''running'' []"]
      maxIterations_pos [of "provisionTimeout ?Er"]
    by (simp add: CreateLoadBalancer_def stuck_cloud_def lb_instance_def Background_def Let_def)
  have h5: "''test-service'' \<noteq> [] \<and>
      ListInstances ?Er [] (listInput ''test-service'') = Inr [lb_instance ''running'' []] \<and>
      DeleteInstance ?Er ([] @ [ListCall (listInput ''test-service'')])
        (inst_ID (lb_instance ''running'' [])) = None"
    by (simp add: stuck_cloud_def)
  have h6: "\<forall>L0. \<exists>instances. ListInstances ?Er L0 (listInput ''test-service'') = Inr instances \<and>
      instances \<noteq> []"
    by (simp add: stuck_cloud_def)
  have h7: "fst (DeleteLoadBalancer empty_cloud Background ''test-service'' []) = None"
    by (simp add: DeleteLoadBalancer_def empty_cloud_def)
  have t300: "Itoa (provisionTimeout ?Ec) = ''300'' \<and> maxIterations (provisionTimeout ?Ec) = 30 \<and>
      Itoa (deleteTimeout ?Er) = ''300'' \<and> maxIterations (deleteTimeout ?Er) = 30"
    by (simp add: run_defs)
  note pb = polling_bounds [where E = ?Ec and L = "[]" and params = ?P and ctx = Background
      and inst = "lb_instance ''provisioning'' []"
      and E' = ?Er and ctx' = Background and params' = ?P and L' = "[]"
      and D = ?Er and M = "[]" and name = "''test-service''" and dctx = Background
      and first = "lb_instance ''running'' []" and others = "[]"
      and D' = empty_cloud and dctx' = Background and name' = "''test-service''" and M' = "[]"
      and s = "[]" and t = 300]
  have id: "inst_ID (lb_instance ''provisioning'' []) = ''lb-1''"
    "inst_ID (lb_instance ''running'' []) = ''lb-1''"
    by (simp_all add: lb_instance_def)
  from pb h1 h2 h3 have ca: "CreateLoadBalancer ?Ec Background ?P [] =
     (Some (Error ''timed out waiting for load balancer to provision after 300 seconds''),
      [CreateCall (createInput ?Ec ?P)] @ concat (replicate 30 [GetCall ''lb-1'', SleepCall 10]))"
    using t300 id by simp
  from pb h4 have cb: "\<exists>L0 ident cur. GetInstance ?Er L0 ident = Inr cur \<and>
      inst_State cur = ''running''"
    by blast
  from pb h2 h5 h6 have cc: "DeleteLoadBalancer ?Er Background ''test-service'' [] =
     (Some (Error
        ''timed out waiting for load balancer test-service to be deleted after 300 seconds''),
      [ListCall (listInput ''test-service''), DeleteCall ''lb-1''] @
      concat (replicate 30 [ListCall (listInput ''test-service''), SleepCall 10]))"
    using t300 id by simp
  from pb h7 have cd: "\<exists>L0. ListInstances empty_cloud L0 (listInput ''test-service'') = Inr []"
    by blast
  from h1 h2 h3 ca h4 cb h5 h6 cc h7 cd show ?thesis
    by blast
qed

text \<open>
  A pass that creates the load balancer and finds only a private address, and a pass over
  an instance without addresses.
\<close>

lemma fresh_run:
  "GetLoadBalancer (fresh_cloud [''10.0.0.1'']) Background (svc_Name test_service) [] =
     (Inr None, [ListCall (listInput ''test-service'')])"
  "CreateLoadBalancer (fresh_cloud [''10.0.0.1'']) Background
       (fst (extractLoadBalancerParams test_service)) [ListCall (listInput ''test-service'')] =
     (None, [ListCall (listInput ''test-service''),
             CreateCall (createInput (fresh_cloud [''10.0.0.1''])
                           (fst (extractLoadBalancerParams test_service))),
             GetCall ''lb-1''])"
   apply (simp add: run_defs fresh_cloud_def addresses_def)
  using provisionLoop_first_running [of "maxIterations (provisionTimeout (fresh_cloud [''10.0.0.1'']))"
      Background "[ListCall (listInput ''test-service''),
             CreateCall (createInput (fresh_cloud [''10.0.0.1''])
                           (fst (extractLoadBalancerParams test_service)))]"
      "fresh_cloud [''10.0.0.1'']" "''lb-1''" "lb_instance ''running'' [''10.0.0.1'']"]
    maxIterations_pos [of "provisionTimeout (fresh_cloud [''10.0.0.1''])"]
  apply (simp add: CreateLoadBalancer_def fresh_cloud_def lb_instance_def Background_def Let_def)
  done

lemma create_then_private_address:
  "snd (reconcileNormal (fresh_cloud [''10.0.0.1'']) Background test_service []) =
     [ListCall (listInput ''test-service''),
      CreateCall (createInput (fresh_cloud [''10.0.0.1''])
                    (fst (extractLoadBalancerParams test_service))),
      GetCall ''lb-1'',
      ListCall (listInput ''test-service''), GetCall ''lb-1'',
      ListCall (listInput ''test-service''), GetCall ''lb-1'',
      StatusUpdateCall (test_service\<lparr>svc_Ingress := [\<lparr>IP = ''10.0.0.1'', Hostname = []\<rparr>]\<rparr>)]"
proof -
  let ?E = "fresh_cloud [''10.0.0.1'']"
  let ?P = "fst (extractLoadBalancerParams test_service)"
  let ?L1 = "[ListCall (listInput ''test-service'')]"
  let ?L2 = "[ListCall (listInput ''test-service''), CreateCall (createInput ?E ?P),
      GetCall ''lb-1'']"
  let ?L3 = "[ListCall (listInput ''test-service''), CreateCall (createInput ?E ?P),
      GetCall ''lb-1'', ListCall (listInput ''test-service''), GetCall ''lb-1'']"
  let ?L4 = "[ListCall (listInput ''test-service''), CreateCall (createInput ?E ?P),
      GetCall ''lb-1'', ListCall (listInput ''test-service''), GetCall ''lb-1'',
      ListCall (listInput ''test-service''), GetCall ''lb-1'']"
  have g1: "GetLoadBalancer ?E Background (svc_Name test_service) [] = (Inr None, ?L1)"
    by (rule fresh_run)
  have "CreateLoadBalancer ?E Background ?P ?L1 = (None, ?L2)"
    by (rule fresh_run)
  then have c: "(case None :: LoadBalancerParams option of
        None \<Rightarrow> CreateLoadBalancer ?E Background ?P ?L1
      | Some lb \<Rightarrow> UpdateLoadBalancer ?E Background (svc_Name test_service) ?P ?L1) = (None, ?L2)"
    by simp
  have g2: "GetLoadBalancer ?E Background (svc_Name test_service) ?L2 =
      (Inr (Some (paramsOfMetadata ''test-service'' Map.empty)), ?L3)"
    by (simp add: GetLoadBalancer_def fresh_cloud_def lb_instance_def test_service_def Let_def)
  have gi: "GetInstanceByName ?E Background (svc_Name test_service) ?L3 =
      (Inr (Some (addresses [''10.0.0.1''])), ?L4)"
    by (simp add: GetInstanceByName_def fresh_cloud_def lb_instance_def test_service_def
        addresses_def Let_def)
  show ?thesis
    using reconcileNormal_status [OF g1 c g2 gi]
    by (simp add: updateStatus_def addresses_def fresh_cloud_def HasPrefix_def Let_def)
qed

lemma no_address_no_status:
  "snd (reconcileNormal (stuck_cloud ''running'' [] []) Background test_service []) =
     [ListCall (listInput ''test-service''), GetCall ''lb-1'',
      ListCall (listInput ''test-service''),
      UpdateMetadataCall ''lb-1'' (buildMetadata (fst (extractLoadBalancerParams test_service))),
      ListCall (listInput ''test-service''), GetCall ''lb-1'',
      ListCall (listInput ''test-service''), GetCall ''lb-1'']"
  by (simp add: run_defs)

end
